theory Spec2Isabelle
  imports Complex_Main
begin

section \<open>Floating-point values as the scripts see them\<close>

text \<open>
  Every column of the survey tables is a float64 column.  A value is a finite real, one of
  the two infinities, or NaN (the missing value of pandas).  Rounding, overflow and the sign
  of zero are not modelled: arithmetic on finite values is exact real arithmetic, and the
  special values follow IEEE 754 as numpy implements it.
\<close>

datatype fl = Fin real | PInf | NInf | NaN

fun isna :: "fl \<Rightarrow> bool" where
  "isna NaN = True"
| "isna _ = False"

definition notna :: "fl \<Rightarrow> bool" where
  "notna x = (\<not> isna x)"

fun fneg :: "fl \<Rightarrow> fl" where
  "fneg (Fin a) = Fin (- a)"
| "fneg PInf = NInf"
| "fneg NInf = PInf"
| "fneg NaN = NaN"

fun fadd :: "fl \<Rightarrow> fl \<Rightarrow> fl" where
  "fadd NaN _ = NaN"
| "fadd _ NaN = NaN"
| "fadd (Fin a) (Fin b) = Fin (a + b)"
| "fadd PInf NInf = NaN"
| "fadd NInf PInf = NaN"
| "fadd PInf _ = PInf"
| "fadd _ PInf = PInf"
| "fadd NInf _ = NInf"
| "fadd _ NInf = NInf"

definition fsub :: "fl \<Rightarrow> fl \<Rightarrow> fl" where
  "fsub a b = fadd a (fneg b)"

fun fmul :: "fl \<Rightarrow> fl \<Rightarrow> fl" where
  "fmul NaN _ = NaN"
| "fmul _ NaN = NaN"
| "fmul (Fin a) (Fin b) = Fin (a * b)"
| "fmul (Fin a) PInf = (if a = 0 then NaN else if 0 < a then PInf else NInf)"
| "fmul (Fin a) NInf = (if a = 0 then NaN else if 0 < a then NInf else PInf)"
| "fmul PInf (Fin b) = (if b = 0 then NaN else if 0 < b then PInf else NInf)"
| "fmul NInf (Fin b) = (if b = 0 then NaN else if 0 < b then NInf else PInf)"
| "fmul PInf PInf = PInf"
| "fmul PInf NInf = NInf"
| "fmul NInf PInf = NInf"
| "fmul NInf NInf = PInf"

text \<open>Division never raises on float columns: \<open>x / 0\<close> is an infinity and \<open>0 / 0\<close> is NaN.\<close>

fun fdiv :: "fl \<Rightarrow> fl \<Rightarrow> fl" where
  "fdiv NaN _ = NaN"
| "fdiv _ NaN = NaN"
| "fdiv (Fin a) (Fin b) =
     (if b = 0 then (if a = 0 then NaN else if 0 < a then PInf else NInf) else Fin (a / b))"
| "fdiv (Fin a) PInf = Fin 0"
| "fdiv (Fin a) NInf = Fin 0"
| "fdiv PInf (Fin b) = (if 0 \<le> b then PInf else NInf)"
| "fdiv NInf (Fin b) = (if 0 \<le> b then NInf else PInf)"
| "fdiv PInf PInf = NaN"
| "fdiv PInf NInf = NaN"
| "fdiv NInf PInf = NaN"
| "fdiv NInf NInf = NaN"

text \<open>Comparisons with NaN are false, also \<open>NaN == NaN\<close>.\<close>

fun flt :: "fl \<Rightarrow> fl \<Rightarrow> bool" where
  "flt NaN _ = False"
| "flt _ NaN = False"
| "flt (Fin a) (Fin b) = (a < b)"
| "flt PInf _ = False"
| "flt _ PInf = True"
| "flt _ NInf = False"
| "flt NInf _ = True"

definition feq :: "fl \<Rightarrow> fl \<Rightarrow> bool" where
  "feq a b = (a = b \<and> \<not> isna a)"

definition fle :: "fl \<Rightarrow> fl \<Rightarrow> bool" where
  "fle a b = (flt a b \<or> feq a b)"

definition fgt :: "fl \<Rightarrow> fl \<Rightarrow> bool" where
  "fgt a b = flt b a"

definition fge :: "fl \<Rightarrow> fl \<Rightarrow> bool" where
  "fge a b = fle b a"

text \<open>\<open>np.minimum\<close> and \<open>np.maximum\<close> propagate NaN.\<close>

definition fminimum :: "fl \<Rightarrow> fl \<Rightarrow> fl" where
  "fminimum a b = (if isna a \<or> isna b then NaN else if flt b a then b else a)"

definition fmaximum :: "fl \<Rightarrow> fl \<Rightarrow> fl" where
  "fmaximum a b = (if isna a \<or> isna b then NaN else if flt a b then b else a)"

definition is_integral :: "real \<Rightarrow> bool" where
  "is_integral b = (b = of_int \<lfloor>b\<rfloor>)"

definition odd_integral :: "real \<Rightarrow> bool" where
  "odd_integral b = (is_integral b \<and> odd \<lfloor>b\<rfloor>)"

text \<open>
  The power operator \<open>**\<close> of float columns (C's \<open>pow\<close>): \<open>x ** 0 = 1\<close> and \<open>1 ** y = 1\<close> even
  for NaN, a negative base with a fractional exponent is NaN, and \<open>0 ** y\<close> with \<open>y < 0\<close> is
  infinite.
\<close>

fun fpow :: "fl \<Rightarrow> fl \<Rightarrow> fl" where
  "fpow x (Fin b) =
     (if b = 0 then Fin 1
      else (case x of
          NaN \<Rightarrow> NaN
        | Fin a \<Rightarrow>
            (if 0 < a then Fin (a powr b)
             else if a = 0 then (if 0 < b then Fin 0 else PInf)
             else if odd_integral b then Fin (- ((- a) powr b))
             else if is_integral b then Fin ((- a) powr b)
             else NaN)
        | PInf \<Rightarrow> (if 0 < b then PInf else Fin 0)
        | NInf \<Rightarrow> (if b < 0 then Fin 0 else if odd_integral b then NInf else PInf)))"
| "fpow x NaN = (if x = Fin 1 then Fin 1 else NaN)"
| "fpow x PInf =
     (case x of
        NaN \<Rightarrow> NaN
      | Fin a \<Rightarrow> (if \<bar>a\<bar> < 1 then Fin 0 else if \<bar>a\<bar> = 1 then Fin 1 else PInf)
      | _ \<Rightarrow> PInf)"
| "fpow x NInf =
     (case x of
        NaN \<Rightarrow> NaN
      | Fin a \<Rightarrow> (if \<bar>a\<bar> < 1 then PInf else if \<bar>a\<bar> = 1 then Fin 1 else Fin 0)
      | _ \<Rightarrow> Fin 0)"

text \<open>\<open>np.log\<close>: the logarithm of zero is minus infinity, of a negative number NaN.\<close>

fun flog :: "fl \<Rightarrow> fl" where
  "flog (Fin a) = (if 0 < a then Fin (ln a) else if a = 0 then NInf else NaN)"
| "flog PInf = PInf"
| "flog NInf = NaN"
| "flog NaN = NaN"

fun fsqrt :: "fl \<Rightarrow> fl" where
  "fsqrt (Fin a) = (if 0 \<le> a then Fin (sqrt a) else NaN)"
| "fsqrt PInf = PInf"
| "fsqrt NInf = NaN"
| "fsqrt NaN = NaN"

text \<open>\<open>.astype(float)\<close> and \<open>.astype(int)\<close> of a boolean column.\<close>

definition b2f :: "bool \<Rightarrow> fl" where
  "b2f b = (if b then Fin 1 else Fin 0)"

definition b2i :: "bool \<Rightarrow> int" where
  "b2i b = (if b then 1 else 0)"

section \<open>Kidney function estimate (CKD-EPI 2021)\<close>

text \<open>
  \<open>calculate_egfr_ckdepi2021\<close> of the cohort script, for one row: \<open>np.where(sex == 2, \<dots>)\<close>
  takes the male constants for every sex code other than 2.
\<close>

definition calculate_egfr_ckdepi2021 :: "fl \<Rightarrow> fl \<Rightarrow> fl \<Rightarrow> fl" where
  "calculate_egfr_ckdepi2021 scr age sex =
     (let kappa = (if feq sex (Fin 2) then Fin 0.7 else Fin 0.9);
          alpha = (if feq sex (Fin 2) then Fin (- 0.241) else Fin (- 0.302));
          female_mult = (if feq sex (Fin 2) then Fin 1.012 else Fin 1.0);
          scr_kappa = fdiv scr kappa;
          term1 = fmul (Fin 142) (fpow (fminimum scr_kappa (Fin 1)) alpha);
          term2 = fpow (fmaximum scr_kappa (Fin 1)) (Fin (- 1.200));
          term3 = fpow (Fin 0.9938) age
      in fmul (fmul (fmul term1 term2) term3) female_mult)"

text \<open>
  \<open>compute_egfr_ckdepi_2021\<close> of the harmonization script, for one row: the result starts
  as NaN and is assigned under the female mask (\<open>sex == 2\<close>) and the male mask
  (\<open>sex == 1\<close>) only.
\<close>

definition compute_egfr_ckdepi_2021 :: "fl \<Rightarrow> fl \<Rightarrow> fl \<Rightarrow> fl" where
  "compute_egfr_ckdepi_2021 creatinine age sex =
     (let egfr = NaN;
          egfr = (if feq sex (Fin 2) then
                    (let scr_kappa_f = fdiv creatinine (Fin 0.7);
                         min_term_f = fpow (fminimum scr_kappa_f (Fin 1)) (Fin (- 0.241));
                         max_term_f = fpow (fmaximum scr_kappa_f (Fin 1)) (Fin (- 1.200));
                         age_term_f = fpow (Fin 0.9938) age
                     in fmul (fmul (fmul (fmul (Fin 142) min_term_f) max_term_f) age_term_f)
                          (Fin 1.012))
                  else egfr);
          egfr = (if feq sex (Fin 1) then
                    (let scr_kappa_m = fdiv creatinine (Fin 0.9);
                         min_term_m = fpow (fminimum scr_kappa_m (Fin 1)) (Fin (- 0.302));
                         max_term_m = fpow (fmaximum scr_kappa_m (Fin 1)) (Fin (- 1.200));
                         age_term_m = fpow (Fin 0.9938) age
                     in fmul (fmul (fmul (Fin 142) min_term_m) max_term_m) age_term_m)
                  else egfr)
      in egfr)"

section \<open>Tables and columns\<close>

text \<open>
  A data frame is its number of rows and its columns in order, each a name with a float
  column.  After \<open>pd.concat(..., ignore_index=True)\<close> the index is \<open>0, 1, \<dots>\<close>, so a row is
  a position.  A subject that a component table does not list has NaN in that table's
  columns (left merge), and a column that no cycle has is absent from the frame.
\<close>

record frame =
  nrows :: nat
  columns :: "(string \<times> fl list) list"

definition wf_frame :: "frame \<Rightarrow> bool" where
  "wf_frame df = list_all (\<lambda>(c, xs). length xs = nrows df) (columns df)"

datatype error = KeyError string | ValueError

definition has_col :: "frame \<Rightarrow> string \<Rightarrow> bool" where
  "has_col df c = (map_of (columns df) c \<noteq> None)"

definition nan_col :: "frame \<Rightarrow> fl list" where
  "nan_col df = replicate (nrows df) NaN"

definition const_col :: "frame \<Rightarrow> fl \<Rightarrow> fl list" where
  "const_col df v = replicate (nrows df) v"

text \<open>\<open>df[c]\<close> raises KeyError on an absent column; \<open>df.get(c, default)\<close> does not.\<close>

definition df_col :: "frame \<Rightarrow> string \<Rightarrow> error + fl list" where
  "df_col df c = (case map_of (columns df) c of None \<Rightarrow> Inl (KeyError c) | Some xs \<Rightarrow> Inr xs)"

definition df_get :: "frame \<Rightarrow> string \<Rightarrow> fl list \<Rightarrow> fl list" where
  "df_get df c dflt = (case map_of (columns df) c of None \<Rightarrow> dflt | Some xs \<Rightarrow> xs)"

definition rowwise :: "nat \<Rightarrow> (nat \<Rightarrow> 'a) \<Rightarrow> 'a list" where
  "rowwise n f = map f [0..<n]"

fun is_prefix :: "string \<Rightarrow> string \<Rightarrow> bool" where
  "is_prefix [] s = True"
| "is_prefix (p # ps) [] = False"
| "is_prefix (p # ps) (c # cs) = (p = c \<and> is_prefix ps cs)"

text \<open>Python's \<open>pat in s\<close> on strings.\<close>

fun str_contains :: "string \<Rightarrow> string \<Rightarrow> bool" where
  "str_contains pat [] = is_prefix pat []"
| "str_contains pat (c # cs) = (is_prefix pat (c # cs) \<or> str_contains pat cs)"

subsection \<open>Reductions that skip NaN\<close>

definition present :: "fl list \<Rightarrow> fl list" where
  "present xs = filter notna xs"

definition fsum :: "fl list \<Rightarrow> fl" where
  "fsum xs = foldr fadd xs (Fin 0)"

text \<open>\<open>Series.sum()\<close> and \<open>DataFrame.sum(axis=1)\<close> skip NaN; the sum of nothing is 0.\<close>

definition sum_skipna :: "fl list \<Rightarrow> fl" where
  "sum_skipna xs = fsum (present xs)"

text \<open>
  \<open>mean()\<close> skips NaN and is NaN when nothing is left.  The sum and the quotient are
  exact here; float64 rounds them, so that the mean of three values 30.1 is
  30.100000000000005 in pandas and 30.1 in this model.  The two coincide where every
  intermediate value is exactly representable.
\<close>

definition series_mean :: "fl list \<Rightarrow> fl" where
  "series_mean xs =
     (let v = present xs
      in if v = [] then NaN else fdiv (fsum v) (Fin (real (length v))))"

text \<open>
  \<open>std()\<close> is the sample standard deviation (\<open>ddof = 1\<close>) of the values that are not NaN,
  and NaN when fewer than two are left.  It is exact here as well: it is 0 exactly when
  the values are equal, where the float64 result can be a small positive number for equal
  values (4.35e-15 for three values 30.1) and can underflow to 0 for distinct tiny ones.
  The evaluation of the division by zero below is at an input on which the float64
  computation is exact.
\<close>

definition series_std :: "fl list \<Rightarrow> fl" where
  "series_std xs =
     (let v = present xs; n = length v
      in if n \<le> 1 then NaN
         else (let avg = fdiv (fsum v) (Fin (real n));
                   sqr = map (\<lambda>x. (let d = fsub avg x in fmul d d)) v
               in fsqrt (fdiv (fsum sqr) (Fin (real n - 1)))))"

text \<open>\<open>max(axis=1)\<close> skips NaN and is NaN when nothing is left.\<close>

definition max_skipna :: "fl list \<Rightarrow> fl" where
  "max_skipna xs =
     (case present xs of [] \<Rightarrow> NaN | v # vs \<Rightarrow> foldl fmaximum v vs)"

text \<open>\<open>(x - x.mean()) / x.std()\<close> for one column.\<close>

definition zscore :: "fl list \<Rightarrow> fl list" where
  "zscore xs = map (\<lambda>x. fdiv (fsub x (series_mean xs)) (series_std xs)) xs"

definition replace_zero :: "fl \<Rightarrow> fl" where
  "replace_zero x = (if x = Fin 0 then NaN else x)"

section \<open>The cohort script\<close>

subsection \<open>Appendicular lean mass\<close>

definition alm_cols :: "string list" where
  "alm_cols = [''DXDLALE'', ''DXDRALE'', ''DXDLLLE'', ''DXDRLLE'']"

text \<open>
  \<open>calculate_alm\<close>: the test is on the columns of the frame, and \<open>sum(axis=1)\<close> is the
  NaN-skipping row sum.
\<close>

definition calculate_alm :: "frame \<Rightarrow> fl list" where
  "calculate_alm df =
     (let available = filter (has_col df) alm_cols
      in if length available = 4 then
           (let alm_g = rowwise (nrows df)
                          (\<lambda>i. sum_skipna (map (\<lambda>c. df_get df c (nan_col df) ! i) available));
                alm_kg = map (\<lambda>g. fdiv g (Fin 1000)) alm_g
            in alm_kg)
         else nan_col df)"

subsection \<open>Sex-specific standardisation of the lean-mass index\<close>

text \<open>
  One pass of the loop \<open>for sex_val in [1, 2]\<close>.  \<open>almi_division\<close> is the division the
  pass performs, as the pair of the subgroup's mean and the divisor, and \<open>None\<close> when
  the guard \<open>std_almi > 0\<close> skips it.
\<close>

definition sex_subset :: "nat \<Rightarrow> fl list \<Rightarrow> fl list \<Rightarrow> real \<Rightarrow> fl list" where
  "sex_subset n sex xs sex_val =
     map (\<lambda>i. xs ! i) (filter (\<lambda>i. feq (sex ! i) (Fin sex_val)) [0..<n])"

definition almi_division :: "nat \<Rightarrow> fl list \<Rightarrow> fl list \<Rightarrow> real \<Rightarrow> (fl \<times> fl) option" where
  "almi_division n sex almi sex_val =
     (let subset = sex_subset n sex almi sex_val;
          mean_almi = series_mean subset;
          std_almi = series_std subset
      in if fgt std_almi (Fin 0) then Some (mean_almi, std_almi) else None)"

definition z_almi_step :: "nat \<Rightarrow> fl list \<Rightarrow> fl list \<Rightarrow> fl list \<Rightarrow> real \<Rightarrow> fl list" where
  "z_almi_step n sex almi z sex_val =
     (case almi_division n sex almi sex_val of
        None \<Rightarrow> z
      | Some (mean_almi, std_almi) \<Rightarrow>
          rowwise n (\<lambda>i. if feq (sex ! i) (Fin sex_val)
                          then fdiv (fsub (almi ! i) mean_almi) std_almi else z ! i))"

definition z_almi_loop :: "nat \<Rightarrow> fl list \<Rightarrow> fl list \<Rightarrow> fl list" where
  "z_almi_loop n sex almi = foldl (z_almi_step n sex almi) (replicate n NaN) [1, 2]"

subsection \<open>Quartiles\<close>

text \<open>
  \<open>pd.qcut(x, q=4, labels=[\<dots>])\<close> of the pandas library: the bin edges are the quantiles
  0, 0.25, 0.5, 0.75 and 1 of the values that are not NaN, by linear interpolation between
  order statistics; the bins are closed on the right and the lowest edge is included; NaN
  gets no label; edges that are not distinct (also when no value is left) raise ValueError.
\<close>

datatype quartile = Q1 | Q2 | Q3 | Q4

definition quantile_linear :: "real list \<Rightarrow> real \<Rightarrow> real" where
  "quantile_linear s q =
     (let h = (real (length s) - 1) * q;
          lo = nat \<lfloor>h\<rfloor>;
          hi = min (lo + 1) (length s - 1)
      in s ! lo + (h - real lo) * (s ! hi - s ! lo))"

definition qcut_bins :: "real list \<Rightarrow> real list" where
  "qcut_bins vals = map (quantile_linear (sort vals)) [0, 1/4, 1/2, 3/4, 1]"

definition bin_label :: "real list \<Rightarrow> real \<Rightarrow> quartile option" where
  "bin_label bins x =
     (let ids = length (filter (\<lambda>b. b < x) bins);
          ids = (if x = bins ! 0 then 1 else ids)
      in if ids = 0 \<or> ids = length bins then None
         else Some ([Q1, Q2, Q3, Q4] ! (ids - 1)))"

definition some_vals :: "real option list \<Rightarrow> real list" where
  "some_vals xs = concat (map (\<lambda>x. case x of None \<Rightarrow> [] | Some a \<Rightarrow> [a]) xs)"

definition qcut :: "real option list \<Rightarrow> error + quartile option list" where
  "qcut xs =
     (let vals = some_vals xs
      in if vals = [] then Inl ValueError
         else (let bins = qcut_bins vals
               in if \<not> distinct bins then Inl ValueError
                  else Inr (map (\<lambda>x. case x of None \<Rightarrow> None | Some a \<Rightarrow> bin_label bins a) xs)))"

text \<open>
  The composite index is finite or NaN in both scripts (lemmas \<open>cohort_iri_no_inf\<close> and
  \<open>construct_iri_no_inf\<close> below), so it enters \<open>qcut\<close> as a real or a missing value.
\<close>

fun finite_part :: "fl \<Rightarrow> real option" where
  "finite_part (Fin a) = Some a"
| "finite_part _ = None"

subsection \<open>Derived columns of \<open>build_iri_cohort\<close>\<close>

definition bp_cols :: "frame \<Rightarrow> string \<Rightarrow> string \<Rightarrow> string list" where
  "bp_cols df p1 p2 = filter (\<lambda>c. str_contains p1 c \<or> str_contains p2 c) (map fst (columns df))"

text \<open>\<open>df[cols].mean(axis=1) if cols else np.nan\<close>\<close>

definition row_mean :: "frame \<Rightarrow> string list \<Rightarrow> fl list" where
  "row_mean df cols =
     (if cols \<noteq> [] then
        rowwise (nrows df) (\<lambda>i. series_mean (map (\<lambda>c. df_get df c (nan_col df) ! i) cols))
      else nan_col df)"

definition cohort_hypertension :: "fl \<Rightarrow> fl \<Rightarrow> fl \<Rightarrow> fl" where
  "cohort_hypertension mean_sbp mean_dbp bp_med =
     b2f (fge mean_sbp (Fin 130) \<or> fge mean_dbp (Fin 80) \<or> feq bp_med (Fin 1))"

definition cohort_diabetes :: "fl \<Rightarrow> fl \<Rightarrow> fl \<Rightarrow> fl" where
  "cohort_diabetes hba1c glucose dm_told =
     b2f (fge hba1c (Fin 6.5) \<or> fge glucose (Fin 126) \<or> feq dm_told (Fin 1))"

definition cohort_cvd_history :: "fl \<Rightarrow> fl \<Rightarrow> fl \<Rightarrow> fl \<Rightarrow> fl \<Rightarrow> fl" where
  "cohort_cvd_history chd mi stroke angina chf =
     b2f (feq chd (Fin 1) \<or> feq mi (Fin 1) \<or> feq stroke (Fin 1) \<or> feq angina (Fin 1)
          \<or> feq chf (Fin 1))"

text \<open>
  The eligibility flag of the cohort script for one row; \<open>&\<close> on the 0/1 columns is the
  conjunction.
\<close>

definition cohort_eligible :: "fl \<Rightarrow> fl \<Rightarrow> fl \<Rightarrow> fl \<Rightarrow> int" where
  "cohort_eligible age iri hscrp mec_weight =
     (let age_eligible = b2i (fge age (Fin 20));
          iri_available = b2i (notna iri);
          crp_valid = b2i (fle hscrp (Fin 10))
      in b2i (age_eligible = 1 \<and> iri_available = 1 \<and> crp_valid = 1 \<and> notna mec_weight))"

text \<open>
  The derived table of \<open>build_iri_cohort\<close>.  The columns that the function derives
  and no property below reads (race, body-mass index, smoking, cancer history, the
  chronic-kidney-disease flag) are left out; the design columns \<open>SDMVPSU\<close> and \<open>SDMVSTRA\<close>
  are read, so their absence raises.
\<close>

record cohort =
  c_age :: "fl list"
  c_sex :: "fl list"
  c_mec_weight :: "fl list"
  c_hscrp :: "fl list"
  c_albumin :: "fl list"
  c_alm_kg :: "fl list"
  c_height_m :: "fl list"
  c_almi :: "fl list"
  c_z_crp_inv :: "fl list"
  c_z_albumin :: "fl list"
  c_z_almi :: "fl list"
  c_iri :: "fl list"
  c_iri_quartile :: "quartile option list"
  c_mean_sbp :: "fl list"
  c_mean_dbp :: "fl list"
  c_hypertension :: "fl list"
  c_diabetes :: "fl list"
  c_egfr :: "fl list"
  c_cvd_history :: "fl list"
  c_eligible :: "int list"

definition build_iri_cohort :: "frame \<Rightarrow> error + cohort" where
  "build_iri_cohort df =
     (let n = nrows df in
      case df_col df ''RIDAGEYR'' of Inl e \<Rightarrow> Inl e | Inr RIDAGEYR \<Rightarrow>
      case df_col df ''RIAGENDR'' of Inl e \<Rightarrow> Inl e | Inr RIAGENDR \<Rightarrow>
      case df_col df ''SDMVPSU'' of Inl e \<Rightarrow> Inl e | Inr psu \<Rightarrow>
      case df_col df ''SDMVSTRA'' of Inl e \<Rightarrow> Inl e | Inr strata \<Rightarrow>
      let age = RIDAGEYR;
          sex = RIAGENDR;
          mec_weight = df_get df ''WTMEC2YR'' (df_get df ''WTMECPRP'' (nan_col df));
          hscrp = df_get df ''LBXHSCRP'' (nan_col df);
          albumin = df_get df ''LBXSAL'' (nan_col df);
          alm_kg = calculate_alm df;
          height_m = map (\<lambda>h. fdiv h (Fin 100)) (df_get df ''BMXHT'' (nan_col df));
          almi = rowwise n (\<lambda>i. fdiv (alm_kg ! i) (fpow (height_m ! i) (Fin 2)));
          log_hscrp = map (\<lambda>x. flog (replace_zero x)) hscrp;
          z_crp = zscore log_hscrp;
          z_crp_inv = map (\<lambda>z. fmul z (Fin (- 1))) z_crp;
          z_albumin = zscore albumin;
          z_almi = z_almi_loop n sex almi;
          iri = rowwise n (\<lambda>i. fadd (fadd (z_crp_inv ! i) (z_albumin ! i)) (z_almi ! i))
      in
      case qcut (map finite_part iri) of Inl e \<Rightarrow> Inl e | Inr quartiles \<Rightarrow>
      let iri_quartile = quartiles;
          mean_sbp = row_mean df (bp_cols df ''BPXSY'' ''BPXOSY'');
          mean_dbp = row_mean df (bp_cols df ''BPXDI'' ''BPXODI'');
          bp_med = df_get df ''BPQ040A'' (nan_col df);
          hypertension = rowwise n
            (\<lambda>i. cohort_hypertension (mean_sbp ! i) (mean_dbp ! i) (bp_med ! i));
          hba1c = df_get df ''LBXGH'' (nan_col df);
          glucose = df_get df ''LBXGLU'' (nan_col df);
          dm_told = df_get df ''DIQ010'' (nan_col df);
          diabetes = rowwise n (\<lambda>i. cohort_diabetes (hba1c ! i) (glucose ! i) (dm_told ! i));
          scr = df_get df ''LBXSCR'' (nan_col df);
          egfr = rowwise n (\<lambda>i. calculate_egfr_ckdepi2021 (scr ! i) (age ! i) (sex ! i));
          chd = df_get df ''MCQ160C'' (const_col df (Fin 2));
          mi = df_get df ''MCQ160E'' (const_col df (Fin 2));
          stroke = df_get df ''MCQ160F'' (const_col df (Fin 2));
          angina = df_get df ''MCQ160D'' (const_col df (Fin 2));
          chf = df_get df ''MCQ160B'' (const_col df (Fin 2));
          cvd_history = rowwise n
            (\<lambda>i. cohort_cvd_history (chd ! i) (mi ! i) (stroke ! i) (angina ! i) (chf ! i));
          eligible = rowwise n
            (\<lambda>i. cohort_eligible (age ! i) (iri ! i) (hscrp ! i) (mec_weight ! i))
      in Inr \<lparr> c_age = age, c_sex = sex, c_mec_weight = mec_weight, c_hscrp = hscrp,
               c_albumin = albumin, c_alm_kg = alm_kg, c_height_m = height_m, c_almi = almi,
               c_z_crp_inv = z_crp_inv, c_z_albumin = z_albumin, c_z_almi = z_almi, c_iri = iri,
               c_iri_quartile = iri_quartile, c_mean_sbp = mean_sbp, c_mean_dbp = mean_dbp,
               c_hypertension = hypertension, c_diabetes = diabetes, c_egfr = egfr,
               c_cvd_history = cvd_history, c_eligible = eligible \<rparr>)"

section \<open>The harmonization script\<close>

subsection \<open>Grip strength\<close>

definition grip_cols :: "string list" where
  "grip_cols = [''MGXH1T1'', ''MGXH1T2'', ''MGXH1T3'', ''MGXH2T1'', ''MGXH2T2'', ''MGXH2T3'']"

text \<open>Zero and negative readings are replaced by NaN before the row maximum.\<close>

definition grip_valid :: "fl \<Rightarrow> fl" where
  "grip_valid x = (let y = replace_zero x in if flt y (Fin 0) then NaN else y)"

definition compute_max_grip_strength :: "frame \<Rightarrow> fl list" where
  "compute_max_grip_strength df =
     (let available_cols = filter (has_col df) grip_cols
      in if available_cols = [] then nan_col df
         else rowwise (nrows df)
                (\<lambda>i. max_skipna
                       (map (\<lambda>c. grip_valid (df_get df c (nan_col df) ! i)) available_cols)))"

subsection \<open>Sex-specific standardisation of grip strength\<close>

text \<open>
  One pass of the loop \<open>for sex in [1, 2]\<close> of \<open>construct_iri\<close>.  The guard is
  \<open>mask.sum() > 0\<close>: the subgroup has a row.  \<open>grip_division\<close> is the division the pass
  performs, as the pair of the subgroup's mean and the divisor, and \<open>None\<close> when the guard
  skips it.
\<close>

definition grip_division :: "nat \<Rightarrow> fl list \<Rightarrow> fl list \<Rightarrow> real \<Rightarrow> (fl \<times> fl) option" where
  "grip_division n sex grip_max sex_val =
     (let mask_sum = length (filter (\<lambda>i. feq (sex ! i) (Fin sex_val)) [0..<n])
      in if mask_sum > 0 then
           (let subset = sex_subset n sex grip_max sex_val;
                grip_mean = series_mean subset;
                grip_std = series_std subset
            in Some (grip_mean, grip_std))
         else None)"

definition z_grip_step :: "nat \<Rightarrow> fl list \<Rightarrow> fl list \<Rightarrow> fl list \<Rightarrow> real \<Rightarrow> fl list" where
  "z_grip_step n sex grip_max z sex_val =
     (case grip_division n sex grip_max sex_val of
        None \<Rightarrow> z
      | Some (grip_mean, grip_std) \<Rightarrow>
          rowwise n (\<lambda>i. if feq (sex ! i) (Fin sex_val)
                          then fdiv (fsub (grip_max ! i) grip_mean) grip_std else z ! i))"

definition z_grip_loop :: "nat \<Rightarrow> fl list \<Rightarrow> fl list \<Rightarrow> fl list" where
  "z_grip_loop n sex grip_max = foldl (z_grip_step n sex grip_max) (replicate n NaN) [1, 2]"

text \<open>
  The columns that \<open>construct_iri\<close> adds, without the four sensitivity flags, which
  nothing below reads.
\<close>

record harmonized =
  h_hscrp :: "fl list"
  h_albumin :: "fl list"
  h_grip_max :: "fl list"
  h_log_hscrp :: "fl list"
  h_z_log_hscrp :: "fl list"
  h_z_albumin :: "fl list"
  h_z_grip :: "fl list"
  h_iri :: "fl list"
  h_iri_quartile :: "quartile option list"

definition construct_iri :: "frame \<Rightarrow> error + harmonized" where
  "construct_iri df =
     (let n = nrows df;
          hscrp = df_get df ''LBXHSCRP'' (nan_col df);
          albumin = df_get df ''LBXSAL'' (nan_col df);
          grip_max = compute_max_grip_strength df;
          log_hscrp = map (\<lambda>x. flog (replace_zero x)) hscrp;
          z_log_hscrp = zscore log_hscrp;
          z_albumin = zscore albumin
      in
      case df_col df ''RIAGENDR'' of Inl e \<Rightarrow> Inl e | Inr RIAGENDR \<Rightarrow>
      let z_grip = z_grip_loop n RIAGENDR grip_max;
          iri = rowwise n
                  (\<lambda>i. fadd (fadd (fneg (z_log_hscrp ! i)) (z_albumin ! i)) (z_grip ! i))
      in
      case qcut (map finite_part iri) of Inl e \<Rightarrow> Inl e | Inr quartiles \<Rightarrow>
      Inr \<lparr> h_hscrp = hscrp, h_albumin = albumin, h_grip_max = grip_max,
            h_log_hscrp = log_hscrp, h_z_log_hscrp = z_log_hscrp, h_z_albumin = z_albumin,
            h_z_grip = z_grip, h_iri = iri, h_iri_quartile = quartiles \<rparr>)"

subsection \<open>Disease flags\<close>

text \<open>
  \<open>define_hypertension\<close>: the flag of a row is 1 when a criterion holds; a 0 is replaced
  by NaN when the three inputs are all NaN.
\<close>

definition hypertension_row :: "fl \<Rightarrow> fl \<Rightarrow> fl \<Rightarrow> fl" where
  "hypertension_row sbp dbp bp_med =
     (let htn = b2f (fge sbp (Fin 130) \<or> fge dbp (Fin 80) \<or> feq bp_med (Fin 1))
      in if htn = Fin 0 then (if isna sbp \<and> isna dbp \<and> isna bp_med then NaN else Fin 0)
         else htn)"

definition define_hypertension :: "frame \<Rightarrow> fl list" where
  "define_hypertension df =
     (let sbp = df_get df ''mean_sbp'' (nan_col df);
          dbp = df_get df ''mean_dbp'' (nan_col df);
          bp_med = df_get df ''BPQ040A'' (nan_col df)
      in rowwise (nrows df) (\<lambda>i. hypertension_row (sbp ! i) (dbp ! i) (bp_med ! i)))"

definition diabetes_row :: "fl \<Rightarrow> fl \<Rightarrow> fl \<Rightarrow> fl \<Rightarrow> fl \<Rightarrow> fl" where
  "diabetes_row hba1c glucose told insulin oral_med =
     b2f (fge hba1c (Fin 6.5) \<or> fge glucose (Fin 126) \<or> feq told (Fin 1)
          \<or> feq insulin (Fin 1) \<or> feq oral_med (Fin 1))"

definition define_diabetes :: "frame \<Rightarrow> fl list" where
  "define_diabetes df =
     (let hba1c = df_get df ''LBXGH'' (nan_col df);
          glucose = df_get df ''LBXGLU'' (nan_col df);
          told = df_get df ''DIQ010'' (nan_col df);
          insulin = df_get df ''DIQ050'' (nan_col df);
          oral_med = df_get df ''DIQ070'' (nan_col df)
      in rowwise (nrows df)
           (\<lambda>i. diabetes_row (hba1c ! i) (glucose ! i) (told ! i) (insulin ! i) (oral_med ! i)))"

definition cvd_row :: "fl \<Rightarrow> fl \<Rightarrow> fl \<Rightarrow> fl \<Rightarrow> fl \<Rightarrow> fl" where
  "cvd_row chf chd angina mi stroke =
     b2f (feq chf (Fin 1) \<or> feq chd (Fin 1) \<or> feq angina (Fin 1) \<or> feq mi (Fin 1)
          \<or> feq stroke (Fin 1))"

definition define_cvd_history :: "frame \<Rightarrow> fl list" where
  "define_cvd_history df =
     (let chf = df_get df ''MCQ160B'' (const_col df (Fin 2));
          chd = df_get df ''MCQ160C'' (const_col df (Fin 2));
          angina = df_get df ''MCQ160D'' (const_col df (Fin 2));
          mi = df_get df ''MCQ160E'' (const_col df (Fin 2));
          stroke = df_get df ''MCQ160F'' (const_col df (Fin 2))
      in rowwise (nrows df)
           (\<lambda>i. cvd_row (chf ! i) (chd ! i) (angina ! i) (mi ! i) (stroke ! i)))"

subsection \<open>Eligibility\<close>

text \<open>
  \<open>apply_eligibility_criteria\<close> for one row: the flag starts at 1 and is cleared by
  each exclusion in turn.  The survey weight is not read.
\<close>

definition eligibility_row :: "fl \<Rightarrow> fl \<Rightarrow> fl \<Rightarrow> fl \<Rightarrow> fl \<Rightarrow> int \<times> int \<times> int" where
  "eligibility_row age pregnant hscrp albumin grip_max =
     (let eligible = (1::int);
          eligible = (if flt age (Fin 18) then 0 else eligible);
          eligible = (if feq pregnant (Fin 1) then 0 else eligible);
          has_crp = notna hscrp;
          has_alb = notna albumin;
          has_grip = notna grip_max;
          has_iri_components = b2i (has_crp \<and> has_alb \<and> has_grip);
          eligible = (if has_iri_components = 0 then 0 else eligible);
          primary_analysis = b2i (eligible = 1 \<and> fle hscrp (Fin 10))
      in (eligible, has_iri_components, primary_analysis))"

record eligibility =
  e_eligible :: "int list"
  e_has_iri_components :: "int list"
  e_primary_analysis :: "int list"

definition apply_eligibility_criteria :: "frame \<Rightarrow> error + eligibility" where
  "apply_eligibility_criteria df =
     (case df_col df ''age'' of Inl e \<Rightarrow> Inl e | Inr age \<Rightarrow>
      case df_col df ''pregnant'' of Inl e \<Rightarrow> Inl e | Inr pregnant \<Rightarrow>
      case df_col df ''hscrp'' of Inl e \<Rightarrow> Inl e | Inr hscrp \<Rightarrow>
      case df_col df ''albumin'' of Inl e \<Rightarrow> Inl e | Inr albumin \<Rightarrow>
      case df_col df ''grip_max'' of Inl e \<Rightarrow> Inl e | Inr grip_max \<Rightarrow>
      let rows = rowwise (nrows df)
                   (\<lambda>i. eligibility_row (age ! i) (pregnant ! i) (hscrp ! i) (albumin ! i)
                          (grip_max ! i))
      in Inr \<lparr> e_eligible = map fst rows,
               e_has_iri_components = map (\<lambda>r. fst (snd r)) rows,
               e_primary_analysis = map (\<lambda>r. snd (snd r)) rows \<rparr>)"

section \<open>The mortality linkage script\<close>

text \<open>
  A row of the cohort file, as far as the linkage reads it, and a row of a decoded
  mortality file.  The status field is one character of the fixed-width record, so its
  numeric column holds a digit or NaN; the other fields are float columns.
\<close>

record subject =
  SEQN :: fl
  cycle :: string

record mort_rec =
  m_SEQN :: fl
  m_mortstat :: "nat option"
  m_ucod_leading :: fl
  m_permth_exm :: fl

text \<open>\<open>drop_duplicates(subset=['SEQN'])\<close> keeps the first row of each identifier.\<close>

fun drop_duplicates :: "mort_rec list \<Rightarrow> fl list \<Rightarrow> mort_rec list" where
  "drop_duplicates [] seen = []"
| "drop_duplicates (m # ms) seen =
     (if m_SEQN m \<in> set seen then drop_duplicates ms seen
      else m # drop_duplicates ms (m_SEQN m # seen))"

text \<open>\<open>define_cause_specific_mortality\<close> for one row: the flags are 0 or 1.\<close>

record mort_flags =
  f_mort_cv :: int
  f_mort_heart :: int
  f_mort_all :: int
  f_mort_cancer :: int

definition define_cause_specific_mortality :: "mort_rec \<Rightarrow> mort_flags" where
  "define_cause_specific_mortality m =
     \<lparr> f_mort_cv = b2i (m_mortstat m = Some 1
                        \<and> (m_ucod_leading m = Fin 1 \<or> m_ucod_leading m = Fin 5)),
       f_mort_heart = b2i (m_mortstat m = Some 1 \<and> m_ucod_leading m = Fin 1),
       f_mort_all = b2i (m_mortstat m = Some 1),
       f_mort_cancer = b2i (m_mortstat m = Some 1 \<and> m_ucod_leading m = Fin 2) \<rparr>"

text \<open>
  The left merge on \<open>SEQN\<close>: a cohort row is paired with every mortality row of its
  identifier, and with nothing when there is none.
\<close>

definition merge_left :: "subject list \<Rightarrow> mort_rec list \<Rightarrow> (subject \<times> mort_rec option) list" where
  "merge_left df mort =
     concat (map (\<lambda>r. (case filter (\<lambda>m. m_SEQN m = SEQN r) mort of
                          [] \<Rightarrow> [(r, None)]
                        | ms \<Rightarrow> map (\<lambda>m. (r, Some m)) ms)) df)"

record linked =
  l_SEQN :: fl
  l_cycle :: string
  l_mortstat :: "int option"
  l_mort_all :: "int option"
  l_mort_cv :: "int option"
  l_mort_heart :: "int option"
  l_mort_cancer :: "int option"
  l_followup_years :: fl

text \<open>\<open>fillna(0).astype(int)\<close> on a merged column.\<close>

definition fillna0 :: "int option \<Rightarrow> int" where
  "fillna0 x = (case x of None \<Rightarrow> 0 | Some v \<Rightarrow> v)"

definition followup_years :: "string \<Rightarrow> fl \<Rightarrow> fl" where
  "followup_years cyc permth_exm =
     (let fu = fdiv permth_exm (Fin 12);
          fu = (if isna fu \<and> cyc = ''2015-2016'' then Fin 3.5 else fu);
          fu = (if isna fu \<and> cyc = ''2017-2020'' then Fin 2.0 else fu)
      in fu)"

definition link_row :: "subject \<times> mort_rec option \<Rightarrow> linked" where
  "link_row p =
     (let r = fst p; m = snd p;
          flags = map_option define_cause_specific_mortality m
      in \<lparr> l_SEQN = SEQN r, l_cycle = cycle r,
            l_mortstat = Some (fillna0 (Option.bind m (\<lambda>x. map_option int (m_mortstat x)))),
            l_mort_all = Some (fillna0 (map_option f_mort_all flags)),
            l_mort_cv = Some (fillna0 (map_option f_mort_cv flags)),
            l_mort_heart = Some (fillna0 (map_option f_mort_heart flags)),
            l_mort_cancer = Some (fillna0 (map_option f_mort_cancer flags)),
            l_followup_years =
              followup_years (cycle r) (case m of None \<Rightarrow> NaN | Some x \<Rightarrow> m_permth_exm x) \<rparr>)"

text \<open>
  \<open>main\<close> of the linkage script from the loaded cohort and the loaded mortality files
  (\<open>all_mort\<close>, the non-empty ones): without any, the outcome columns are NaN
  placeholders (the cancer flag is not created in that branch, which \<open>None\<close> stands for
  as well).
\<close>

definition link_mortality :: "subject list \<Rightarrow> mort_rec list list \<Rightarrow> linked list" where
  "link_mortality df all_mort =
     (if all_mort = [] then
        map (\<lambda>r. \<lparr> l_SEQN = SEQN r, l_cycle = cycle r, l_mortstat = None, l_mort_all = None,
                    l_mort_cv = None, l_mort_heart = None, l_mort_cancer = None,
                    l_followup_years = NaN \<rparr>) df
      else
        (let combined_mort = concat all_mort;
             combined_mort = drop_duplicates combined_mort []
         in map link_row (merge_left df combined_mort)))"

section \<open>Values without infinities\<close>

definition fin_or_nan :: "fl \<Rightarrow> bool" where
  "fin_or_nan x = (x \<noteq> PInf \<and> x \<noteq> NInf)"

section \<open>A concrete survey table\<close>

text \<open>
  Three men with hs-CRP 1, 2 and 4 mg/L, albumin 3, 4 and 5 g/dL, limb lean masses of
  250, 500 and 750 g each, a height of 100 cm and grip readings 30, 40 and 50; the third
  is ten years old.  \<open>out3\<close> and \<open>h3\<close> are what the two scripts derive from it.
\<close>

definition df3 :: frame where
  "df3 = \<lparr> nrows = 3, columns =
     [(''SEQN'', [Fin 1, Fin 2, Fin 3]),
      (''RIDAGEYR'', [Fin 50, Fin 60, Fin 10]),
      (''RIAGENDR'', [Fin 1, Fin 1, Fin 1]),
      (''WTMEC2YR'', [Fin 1000, Fin 1000, Fin 1000]),
      (''SDMVPSU'', [Fin 1, Fin 2, Fin 1]),
      (''SDMVSTRA'', [Fin 120, Fin 120, Fin 121]),
      (''LBXHSCRP'', [Fin 1, Fin 2, Fin 4]),
      (''LBXSAL'', [Fin 3, Fin 4, Fin 5]),
      (''DXDLALE'', [Fin 250, Fin 500, Fin 750]),
      (''DXDRALE'', [Fin 250, Fin 500, Fin 750]),
      (''DXDLLLE'', [Fin 250, Fin 500, Fin 750]),
      (''DXDRLLE'', [Fin 250, Fin 500, Fin 750]),
      (''BMXHT'', [Fin 100, Fin 100, Fin 100]),
      (''MGXH1T1'', [Fin 30, Fin 40, Fin 50])] \<rparr>"

definition out3 :: cohort where
  "out3 = \<lparr> c_age = [Fin 50, Fin 60, Fin 10], c_sex = [Fin 1, Fin 1, Fin 1],
      c_mec_weight = [Fin 1000, Fin 1000, Fin 1000], c_hscrp = [Fin 1, Fin 2, Fin 4],
      c_albumin = [Fin 3, Fin 4, Fin 5], c_alm_kg = [Fin 1, Fin 2, Fin 3],
      c_height_m = [Fin 1, Fin 1, Fin 1], c_almi = [Fin 1, Fin 2, Fin 3],
      c_z_crp_inv = [Fin 1, Fin 0, Fin (- 1)], c_z_albumin = [Fin (- 1), Fin 0, Fin 1],
      c_z_almi = [Fin (- 1), Fin 0, Fin 1], c_iri = [Fin (- 1), Fin 0, Fin 1],
      c_iri_quartile = [Some Q1, Some Q2, Some Q4],
      c_mean_sbp = [NaN, NaN, NaN], c_mean_dbp = [NaN, NaN, NaN],
      c_hypertension = [Fin 0, Fin 0, Fin 0], c_diabetes = [Fin 0, Fin 0, Fin 0],
      c_egfr = [NaN, NaN, NaN], c_cvd_history = [Fin 0, Fin 0, Fin 0],
      c_eligible = [1, 1, 0] \<rparr>"

definition h3 :: harmonized where
  "h3 = \<lparr> h_hscrp = [Fin 1, Fin 2, Fin 4], h_albumin = [Fin 3, Fin 4, Fin 5],
      h_grip_max = [Fin 30, Fin 40, Fin 50],
      h_log_hscrp = [Fin 0, Fin (ln 2), Fin (ln 4)],
      h_z_log_hscrp = [Fin (- 1), Fin 0, Fin 1], h_z_albumin = [Fin (- 1), Fin 0, Fin 1],
      h_z_grip = [Fin (- 1), Fin 0, Fin 1], h_iri = [Fin (- 1), Fin 0, Fin 1],
      h_iri_quartile = [Some Q1, Some Q2, Some Q4] \<rparr>"

subsection \<open>A table with incomplete limb measurements\<close>

text \<open>
  Two subjects of a cycle that has the four limb columns: the first lacks the right leg,
  the second has no scan at all.
\<close>

definition df_alm :: frame where
  "df_alm = \<lparr> nrows = 2, columns =
     [(''DXDLALE'', [Fin 2000, NaN]),
      (''DXDRALE'', [Fin 2100, NaN]),
      (''DXDLLLE'', [Fin 6000, NaN]),
      (''DXDRLLE'', [NaN, NaN])] \<rparr>"

subsection \<open>Missing inputs\<close>

text \<open>A field is missing for a subject when its column is absent or holds NaN in the row.\<close>

definition missing_at :: "frame \<Rightarrow> string \<Rightarrow> nat \<Rightarrow> bool" where
  "missing_at df c i = (case map_of (columns df) c of None \<Rightarrow> True | Some xs \<Rightarrow> isna (xs ! i))"

subsection \<open>The equation as the specification writes it\<close>

text \<open>
  \<open>eGFR = 142 \<times> min(Scr/\<kappa>, 1)^\<alpha> \<times> max(Scr/\<kappa>, 1)^(-1.200) \<times> 0.9938^age \<times> (1.012 if female
  else 1.0)\<close> with \<open>\<kappa> = 0.7\<close>, \<open>\<alpha> = -0.241\<close> for female and \<open>\<kappa> = 0.9\<close>, \<open>\<alpha> = -0.302\<close> for male,
  over the reals for a positive creatinine.
\<close>

definition ckd_epi_2021 :: "real \<Rightarrow> real \<Rightarrow> bool \<Rightarrow> real" where
  "ckd_epi_2021 Scr age female =
     (let \<kappa> = (if female then 0.7 else 0.9);
          \<alpha> = (if female then - 0.241 else - 0.302)
      in 142 * (min (Scr / \<kappa>) 1) powr \<alpha> * (max (Scr / \<kappa>) 1) powr (- 1.200)
           * 0.9938 powr age * (if female then 1.012 else 1.0))"

subsection \<open>A derived table for the eligibility step\<close>

text \<open>
  One subject of the harmonized table, aged 50, not pregnant, with the three raw
  components and no survey weight.
\<close>

definition df_elig :: frame where
  "df_elig = \<lparr> nrows = 1, columns =
     [(''age'', [Fin 50]), (''pregnant'', [Fin 0]), (''hscrp'', [Fin 2]),
      (''albumin'', [Fin 4]), (''grip_max'', [Fin 40]),
      (''WTMEC2YR'', [NaN]), (''WTMECPRP'', [NaN])] \<rparr>"

subsection \<open>A linked subject without follow-up months\<close>

text \<open>
  A subject of the cycle 2015-2016 and the mortality record of the same identifier, which
  has neither a status nor follow-up months (a subject who is not eligible for linkage).
\<close>

definition subj1 :: subject where
  "subj1 = \<lparr> SEQN = Fin 83732, cycle = ''2015-2016'' \<rparr>"

definition mort1 :: mort_rec where
  "mort1 = \<lparr> m_SEQN = Fin 83732, m_mortstat = None, m_ucod_leading = NaN, m_permth_exm = NaN \<rparr>"

text \<open>A deceased subject of the cycle 2017-2020 with 30 months of follow-up.\<close>

definition subj2 :: subject where
  "subj2 = \<lparr> SEQN = Fin 93703, cycle = ''2017-2020'' \<rparr>"

definition mort2 :: mort_rec where
  "mort2 = \<lparr> m_SEQN = Fin 93703, m_mortstat = Some 1, m_ucod_leading = Fin 1,
             m_permth_exm = Fin 30 \<rparr>"

text \<open>The documented constant per cycle, NaN for any other cycle.\<close>

definition default_followup :: "string \<Rightarrow> fl" where
  "default_followup cyc =
     (if cyc = ''2015-2016'' then Fin 3.5 else if cyc = ''2017-2020'' then Fin 2.0 else NaN)"

subsection \<open>Cut points as the specification describes them\<close>

text \<open>
  The quartile cut points of the composite index over the eligible subjects only: the
  same quantiles, of the index values of the rows whose eligibility flag is 1.
\<close>

definition eligible_cut_points :: "int list \<Rightarrow> fl list \<Rightarrow> real list" where
  "eligible_cut_points elig xs =
     qcut_bins (some_vals (map (\<lambda>(e, x). if e = 1 then finite_part x else None) (zip elig xs)))"

section \<open>Basic facts\<close>

lemma fmul_one_right: "fmul x (Fin 1) = x"
  by (cases x) simp_all

lemma egfr_same_female:
  "calculate_egfr_ckdepi2021 scr age (Fin 2) = compute_egfr_ckdepi_2021 scr age (Fin 2)"
  by (simp add: calculate_egfr_ckdepi2021_def compute_egfr_ckdepi_2021_def feq_def Let_def)

lemma egfr_same_male:
  "calculate_egfr_ckdepi2021 scr age (Fin 1) = compute_egfr_ckdepi_2021 scr age (Fin 1)"
  by (simp add: calculate_egfr_ckdepi2021_def compute_egfr_ckdepi_2021_def feq_def Let_def
      fmul_one_right)

lemma rowwise_nth: "i < n \<Longrightarrow> rowwise n f ! i = f i"
  by (simp add: rowwise_def)

lemma length_rowwise: "length (rowwise n f) = n"
  by (simp add: rowwise_def)

lemma fadd_Fin_iff: "fadd x y = Fin r \<longleftrightarrow> (\<exists>a b. x = Fin a \<and> y = Fin b \<and> r = a + b)"
  by (cases x; cases y) auto

lemma fmul_Fin_iff: "fmul x y = Fin r \<longleftrightarrow> (\<exists>a b. x = Fin a \<and> y = Fin b \<and> r = a * b)"
  by (cases x; cases y) auto

lemma fsum_Nil: "fsum [] = Fin 0"
  by (simp add: fsum_def)

lemma fsum_Cons: "fsum (x # xs) = fadd x (fsum xs)"
  by (simp add: fsum_def)

lemma fsum_map_Fin: "fsum (map Fin vs) = Fin (sum_list vs)"
  by (induction vs) (simp_all add: fsum_Nil fsum_Cons)

lemma all_Fin_map: "\<forall>x\<in>set xs. \<exists>a. x = Fin a \<Longrightarrow> \<exists>vs. xs = map Fin vs"
proof (induction xs)
  case Nil
  then show ?case by simp
next
  case (Cons x xs)
  then obtain a vs where "x = Fin a" "xs = map Fin vs" by auto
  then have "x # xs = map Fin (a # vs)" by simp
  then show ?case by (rule exI)
qed

lemma fsum_Fin_each: "fsum xs = Fin r \<Longrightarrow> \<forall>x\<in>set xs. \<exists>a. x = Fin a"
  by (induction xs arbitrary: r) (auto simp: fsum_Cons fadd_Fin_iff)

lemma fsum_Fin_all: "fsum xs = Fin r \<Longrightarrow> \<exists>vs. xs = map Fin vs"
  by (rule all_Fin_map) (rule fsum_Fin_each)

lemma fsqrt_Fin_iff: "fsqrt x = Fin s \<longleftrightarrow> (\<exists>a. x = Fin a \<and> 0 \<le> a \<and> s = sqrt a)"
  by (cases x) auto

lemma fdiv_pos_Fin_iff:
  "0 < k \<Longrightarrow> fdiv x (Fin k) = Fin r \<longleftrightarrow> (\<exists>a. x = Fin a \<and> r = a / k)"
  by (cases x) auto

lemma sum_list_squares_zero:
  fixes f :: "real \<Rightarrow> real"
  assumes "sum_list (map (\<lambda>v. f v * f v) vs) = 0"
  shows "\<forall>v\<in>set vs. f v = 0"
  using assms
proof (induction vs)
  case Nil
  then show ?case by simp
next
  case (Cons v vs)
  have nn: "0 \<le> sum_list (map (\<lambda>v. f v * f v) vs)"
    by (rule sum_list_nonneg) auto
  have "0 \<le> f v * f v" by simp
  with Cons.prems nn have a: "f v * f v = 0" and b: "sum_list (map (\<lambda>v. f v * f v) vs) = 0"
    by (simp_all add: add_nonneg_eq_0_iff)
  from a have "f v = 0" by simp
  with Cons.IH [OF b] show ?case by simp
qed

text \<open>What a finite standard deviation says about the column.\<close>

lemma series_std_Fin:
  assumes "series_std xs = Fin s"
  shows "\<exists>vs. present xs = map Fin vs \<and> 2 \<le> length vs
           \<and> series_mean xs = Fin (sum_list vs / real (length vs))
           \<and> 0 \<le> s
           \<and> (s = 0 \<longrightarrow> (\<forall>v\<in>set vs. v = sum_list vs / real (length vs)))"
proof -
  define v where "v = present xs"
  define n where "n = length v"
  define avg where "avg = fdiv (fsum v) (Fin (real n))"
  define sqr where "sqr = map (\<lambda>x. (let d = fsub avg x in fmul d d)) v"
  have n2: "2 \<le> n"
    using assms by (auto simp: series_std_def Let_def v_def n_def split: if_splits)
  then have std: "fsqrt (fdiv (fsum sqr) (Fin (real n - 1))) = Fin s"
    using assms by (simp add: series_std_def Let_def v_def n_def avg_def sqr_def)
  have kpos: "0 < real n - 1" using n2 by simp
  from std obtain q where q: "fdiv (fsum sqr) (Fin (real n - 1)) = Fin q" "0 \<le> q" "s = sqrt q"
    by (auto simp: fsqrt_Fin_iff)
  from q(1) kpos obtain S where S: "fsum sqr = Fin S" "q = S / (real n - 1)"
    by (auto simp: fdiv_pos_Fin_iff)
  from fsum_Fin_all [OF S(1)] obtain ds where ds: "sqr = map Fin ds" by blast
  have vne: "v \<noteq> []" using n2 by (auto simp: n_def)
  have each: "\<forall>x\<in>set v. \<exists>a m. x = Fin a \<and> avg = Fin m"
  proof
    fix x assume xin: "x \<in> set v"
    then have "(let d = fsub avg x in fmul d d) \<in> set sqr" by (auto simp: sqr_def)
    then obtain d where "(let d = fsub avg x in fmul d d) = Fin d" using ds by auto
    then obtain e where "fsub avg x = Fin e" by (auto simp: Let_def fmul_Fin_iff)
    then show "\<exists>a m. x = Fin a \<and> avg = Fin m"
      by (cases x; cases avg) (auto simp: fsub_def)
  qed
  from vne obtain x0 where "x0 \<in> set v" by (cases v) auto
  with each obtain m where m: "avg = Fin m" by blast
  from each have "\<forall>x\<in>set v. \<exists>a. x = Fin a" by blast
  then have "\<exists>vs. v = map Fin vs" by (rule all_Fin_map)
  then obtain vs where vs: "v = map Fin vs" by blast
  have len: "length vs = n" by (simp add: n_def vs)
  have npos: "real n \<noteq> 0" using n2 by simp
  have avg_eq: "avg = Fin (sum_list vs / real n)"
    using npos by (simp add: avg_def vs fsum_map_Fin)
  have mean: "series_mean xs = Fin (sum_list vs / real (length vs))"
    using vne avg_eq len by (simp add: series_mean_def Let_def v_def [symmetric] avg_def n_def)
  have sqr_eq: "sqr = map Fin (map (\<lambda>a. (sum_list vs / real n - a) * (sum_list vs / real n - a)) vs)"
    by (simp add: sqr_def vs avg_eq fsub_def Let_def comp_def)
  have S_eq: "S = sum_list (map (\<lambda>a. (sum_list vs / real n - a) * (sum_list vs / real n - a)) vs)"
    using S(1) unfolding sqr_eq fsum_map_Fin by simp
  have s_nonneg: "0 \<le> s" using q by simp
  have zero: "s = 0 \<longrightarrow> (\<forall>a\<in>set vs. a = sum_list vs / real n)"
  proof
    assume "s = 0"
    with q have "q = 0" by simp
    with S(2) kpos have "S = 0" by simp
    with S_eq [symmetric]
    have "sum_list (map (\<lambda>a. (sum_list vs / real n - a) * (sum_list vs / real n - a)) vs) = 0"
      by (rule trans)
    then have "\<forall>a\<in>set vs. sum_list vs / real n - a = 0"
      by (rule sum_list_squares_zero)
    then show "\<forall>a\<in>set vs. a = sum_list vs / real n" by simp
  qed
  from vs have "present xs = map Fin vs" by (simp add: v_def)
  moreover from n2 len have "2 \<le> length vs" by simp
  moreover from zero len
  have "s = 0 \<longrightarrow> (\<forall>a\<in>set vs. a = sum_list vs / real (length vs))" by simp
  ultimately show ?thesis using mean s_nonneg by blast
qed

lemma in_present: "x \<in> set xs \<Longrightarrow> \<not> isna x \<Longrightarrow> x \<in> set (present xs)"
  by (simp add: present_def notna_def)

lemma zscore_elem_no_inf:
  assumes "x \<in> set xs"
  shows "fin_or_nan (fdiv (fsub x (series_mean xs)) (series_std xs))"
proof (cases "series_std xs")
  case (Fin s)
  show ?thesis
  proof (cases "isna x")
    case True
    then show ?thesis by (cases x) (simp_all add: fsub_def fin_or_nan_def)
  next
    case False
    from series_std_Fin [OF Fin] obtain vs where
      vs: "present xs = map Fin vs"
      and mean: "series_mean xs = Fin (sum_list vs / real (length vs))"
      and eq: "s = 0 \<longrightarrow> (\<forall>v\<in>set vs. v = sum_list vs / real (length vs))" by auto
    from in_present [OF assms False] vs obtain v where v: "x = Fin v" "v \<in> set vs" by auto
    show ?thesis
    proof (cases "s = 0")
      case True
      with eq v have "v = sum_list vs / real (length vs)" by blast
      then show ?thesis using v(1) mean Fin True by (simp add: fsub_def fin_or_nan_def)
    next
      case False
      then show ?thesis using v(1) mean Fin by (simp add: fsub_def fin_or_nan_def)
    qed
  qed
next
  case PInf
  then show ?thesis
    by (cases "fsub x (series_mean xs)") (simp_all add: fin_or_nan_def)
next
  case NInf
  then show ?thesis
    by (cases "fsub x (series_mean xs)") (simp_all add: fin_or_nan_def)
next
  case NaN
  then show ?thesis
    by (cases "fsub x (series_mean xs)") (simp_all add: fin_or_nan_def)
qed

lemma zscore_nth:
  "i < length xs \<Longrightarrow> zscore xs ! i = fdiv (fsub (xs ! i) (series_mean xs)) (series_std xs)"
  by (simp add: zscore_def)

lemma zscore_no_inf: "i < length xs \<Longrightarrow> fin_or_nan (zscore xs ! i)"
  by (simp add: zscore_nth zscore_elem_no_inf)

lemma fin_or_nan_fneg: "fin_or_nan x \<Longrightarrow> fin_or_nan (fneg x)"
  by (cases x) (simp_all add: fin_or_nan_def)

lemma fmul_minus_one: "fmul x (Fin (- 1)) = fneg x"
  by (cases x) simp_all

text \<open>The sum of three values that are finite or NaN.\<close>

lemma fadd3_isna:
  assumes "fin_or_nan a" "fin_or_nan b" "fin_or_nan c"
  shows "isna (fadd (fadd a b) c) \<longleftrightarrow> isna a \<or> isna b \<or> isna c"
  using assms by (cases a; cases b; cases c) (simp_all add: fin_or_nan_def)

lemma fadd3_no_inf:
  assumes "fin_or_nan a" "fin_or_nan b" "fin_or_nan c"
  shows "fin_or_nan (fadd (fadd a b) c)"
  using assms by (cases a; cases b; cases c) (simp_all add: fin_or_nan_def)

lemma fadd3_value:
  assumes "\<not> isna (fadd (fadd a b) c)" "fin_or_nan a" "fin_or_nan b" "fin_or_nan c"
  shows "\<exists>x y z. a = Fin x \<and> b = Fin y \<and> c = Fin z \<and> fadd (fadd a b) c = Fin (x + y + z)"
  using assms by (cases a; cases b; cases c) (simp_all add: fin_or_nan_def)

subsection \<open>The sex-specific loops\<close>

lemma sex_subset_mem:
  "i < n \<Longrightarrow> feq (sex ! i) (Fin v) \<Longrightarrow> xs ! i \<in> set (sex_subset n sex xs v)"
  by (auto simp: sex_subset_def)

lemma feq_Fin_distinct: "feq s (Fin 1) \<Longrightarrow> \<not> feq s (Fin 2)"
  by (auto simp: feq_def)

lemma z_almi_loop_nth:
  assumes "i < n"
  shows "z_almi_loop n sex almi ! i =
     (if feq (sex ! i) (Fin 2) then
        (case almi_division n sex almi 2 of None \<Rightarrow> NaN
         | Some (m, s) \<Rightarrow> fdiv (fsub (almi ! i) m) s)
      else if feq (sex ! i) (Fin 1) then
        (case almi_division n sex almi 1 of None \<Rightarrow> NaN
         | Some (m, s) \<Rightarrow> fdiv (fsub (almi ! i) m) s)
      else NaN)"
  using assms
  by (auto simp: z_almi_loop_def z_almi_step_def rowwise_nth feq_def split: option.splits)

lemma z_grip_loop_nth:
  assumes "i < n"
  shows "z_grip_loop n sex grip ! i =
     (if feq (sex ! i) (Fin 2) then
        (case grip_division n sex grip 2 of None \<Rightarrow> NaN
         | Some (m, s) \<Rightarrow> fdiv (fsub (grip ! i) m) s)
      else if feq (sex ! i) (Fin 1) then
        (case grip_division n sex grip 1 of None \<Rightarrow> NaN
         | Some (m, s) \<Rightarrow> fdiv (fsub (grip ! i) m) s)
      else NaN)"
  using assms
  by (auto simp: z_grip_loop_def z_grip_step_def rowwise_nth feq_def split: option.splits)

lemma upt3: "[0..<3] = [0, 1, 2]"
  by (simp add: upt_rec)

lemma present_Fin3: "present [Fin a, Fin b, Fin c] = [Fin a, Fin b, Fin c]"
  by (simp add: present_def notna_def)

lemma mean_progression:
  "series_mean [Fin a, Fin (a + d), Fin (a + 2 * d)] = Fin (a + d)"
  by (simp add: series_mean_def present_Fin3 fsum_Cons fsum_Nil)

lemma std_progression:
  assumes "0 < d"
  shows "series_std [Fin a, Fin (a + d), Fin (a + 2 * d)] = Fin d"
proof -
  have avg: "fdiv (fsum [Fin a, Fin (a + d), Fin (a + 2 * d)]) (Fin 3) = Fin (a + d)"
    by (simp add: fsum_Cons fsum_Nil)
  have sq: "map (\<lambda>x. (let e = fsub (Fin (a + d)) x in fmul e e))
              [Fin a, Fin (a + d), Fin (a + 2 * d)] = [Fin (d * d), Fin 0, Fin (d * d)]"
    by (simp add: fsub_def Let_def)
  have "(d * d + d * d) / 2 = d * d" by simp
  then have "sqrt ((d * d + d * d) / 2) = d"
    using assms by simp
  then have root: "fsqrt (fdiv (fsum [Fin (d * d), Fin 0, Fin (d * d)]) (Fin 2)) = Fin d"
    by (simp add: fsum_Cons fsum_Nil)
  have "series_std [Fin a, Fin (a + d), Fin (a + 2 * d)] =
          fsqrt (fdiv (fsum (map (\<lambda>x. (let e = fsub (Fin (a + d)) x in fmul e e))
              [Fin a, Fin (a + d), Fin (a + 2 * d)])) (Fin 2))"
    by (simp add: series_std_def present_Fin3 Let_def avg del: list.map)
  then show ?thesis
    by (simp only: sq root)
qed

lemma zscore_progression:
  assumes "0 < d"
  shows "zscore [Fin a, Fin (a + d), Fin (a + 2 * d)] = [Fin (- 1), Fin 0, Fin 1]"
  using assms
  by (simp add: zscore_def mean_progression std_progression [OF assms] fsub_def)

lemma ln4: "ln (4::real) = 2 * ln 2"
proof -
  have "ln ((2::real) ^ 2) = real 2 * ln 2" by (rule ln_realpow)
  then show ?thesis by simp
qed

lemma zscore_log3: "zscore [Fin 0, Fin (ln 2), Fin (ln 4)] = [Fin (- 1), Fin 0, Fin 1]"
  using zscore_progression [of "ln 2" 0] by (simp add: ln4)

lemma zscore_alb3: "zscore [Fin 3, Fin 4, Fin 5] = [Fin (- 1), Fin 0, Fin 1]"
  using zscore_progression [of 1 3] by simp

lemma zscore_grip3: "zscore [Fin 30, Fin 40, Fin 50] = [Fin (- 1), Fin 0, Fin 1]"
  using zscore_progression [of 10 30] by simp

lemma calculate_alm_df3: "calculate_alm df3 = [Fin 1, Fin 2, Fin 3]"
  by (simp add: calculate_alm_def df3_def alm_cols_def has_col_def rowwise_def upt3 df_get_def
      sum_skipna_def present_def notna_def fsum_Cons fsum_Nil)

lemma sex_subset_all3: "sex_subset 3 [Fin 1, Fin 1, Fin 1] xs 1 = [xs ! 0, xs ! 1, xs ! 2]"
  by (simp add: sex_subset_def upt3 feq_def)

lemma sex_subset_none3: "sex_subset 3 [Fin 1, Fin 1, Fin 1] xs 2 = []"
  by (simp add: sex_subset_def upt3 feq_def)

lemma std_Nil: "series_std [] = NaN"
  by (simp add: series_std_def present_def)

lemma mean_123: "series_mean [Fin 1, Fin 2, Fin 3] = Fin 2"
  using mean_progression [of 1 1] by simp

lemma std_123: "series_std [Fin 1, Fin 2, Fin 3] = Fin 1"
  using std_progression [of 1 1] by simp

lemma z_almi_loop_df3:
  "z_almi_loop 3 [Fin 1, Fin 1, Fin 1] [Fin 1, Fin 2, Fin 3] = [Fin (- 1), Fin 0, Fin 1]"
  by (simp add: z_almi_loop_def z_almi_step_def almi_division_def sex_subset_all3
      sex_subset_none3 std_Nil mean_123 std_123 fgt_def rowwise_def upt3 feq_def fsub_def)

lemma sort3: "sort [- 1, 0, 1 :: real] = [- 1, 0, 1]"
  by simp

lemma qcut_bins3: "qcut_bins [- 1, 0, 1] = [- 1, - (1 / 2), 0, 1 / 2, 1]"
  by (simp add: qcut_bins_def quantile_linear_def Let_def)

lemma qcut3: "qcut [Some (- 1), Some 0, Some 1] = Inr [Some Q1, Some Q2, Some Q4]"
  by (simp add: qcut_def some_vals_def qcut_bins3 bin_label_def Let_def)

lemma egfr_nan: "calculate_egfr_ckdepi2021 NaN a s = NaN"
  by (simp add: calculate_egfr_ckdepi2021_def Let_def fminimum_def fmaximum_def)

lemma build_df3: "build_iri_cohort df3 = Inr out3"
proof -
  have cols: "df_col df3 ''RIDAGEYR'' = Inr [Fin 50, Fin 60, Fin 10]"
    "df_col df3 ''RIAGENDR'' = Inr [Fin 1, Fin 1, Fin 1]"
    "df_col df3 ''SDMVPSU'' = Inr [Fin 1, Fin 2, Fin 1]"
    "df_col df3 ''SDMVSTRA'' = Inr [Fin 120, Fin 120, Fin 121]"
    by (simp_all add: df_col_def df3_def)
  have gets: "df_get df3 ''WTMEC2YR'' d = [Fin 1000, Fin 1000, Fin 1000]"
    "df_get df3 ''LBXHSCRP'' d = [Fin 1, Fin 2, Fin 4]"
    "df_get df3 ''LBXSAL'' d = [Fin 3, Fin 4, Fin 5]"
    "df_get df3 ''BMXHT'' d = [Fin 100, Fin 100, Fin 100]"
    "df_get df3 ''BPQ040A'' d = d" "df_get df3 ''LBXGH'' d = d" "df_get df3 ''LBXGLU'' d = d"
    "df_get df3 ''DIQ010'' d = d" "df_get df3 ''LBXSCR'' d = d" "df_get df3 ''MCQ160C'' d = d"
    "df_get df3 ''MCQ160E'' d = d" "df_get df3 ''MCQ160F'' d = d" "df_get df3 ''MCQ160D'' d = d"
    "df_get df3 ''MCQ160B'' d = d" for d
    by (simp_all add: df_get_def df3_def)
  have n: "nrows df3 = 3" by (simp add: df3_def)
  have nanc: "nan_col df3 = [NaN, NaN, NaN]" "const_col df3 v = [v, v, v]" for v
    by (simp_all add: nan_col_def const_col_def n numeral_3_eq_3)
  have bp: "row_mean df3 (bp_cols df3 ''BPXSY'' ''BPXOSY'') = [NaN, NaN, NaN]"
    "row_mean df3 (bp_cols df3 ''BPXDI'' ''BPXODI'') = [NaN, NaN, NaN]"
    by (simp_all add: row_mean_def bp_cols_def df3_def nan_col_def numeral_3_eq_3)
  have logs: "map (\<lambda>x. flog (replace_zero x)) [Fin 1, Fin 2, Fin 4] = [Fin 0, Fin (ln 2), Fin (ln 4)]"
    by (simp add: replace_zero_def)
  show ?thesis
    unfolding build_iri_cohort_def
    by (simp add: Let_def cols gets n nanc bp replace_zero_def calculate_alm_df3 zscore_log3 zscore_alb3
        z_almi_loop_df3 rowwise_def upt3 qcut3 out3_def egfr_nan cohort_hypertension_def
        cohort_diabetes_def cohort_cvd_history_def cohort_eligible_def b2f_def b2i_def
        fge_def fle_def feq_def notna_def)
qed

lemma grip_df3: "compute_max_grip_strength df3 = [Fin 30, Fin 40, Fin 50]"
  by (simp add: compute_max_grip_strength_def grip_cols_def has_col_def df3_def rowwise_def
      upt3 df_get_def max_skipna_def present_def notna_def grip_valid_def replace_zero_def)

lemma mean_grip3: "series_mean [Fin 30, Fin 40, Fin 50] = Fin 40"
  using mean_progression [of 30 10] by simp

lemma std_grip3: "series_std [Fin 30, Fin 40, Fin 50] = Fin 10"
  using std_progression [of 10 30] by simp

lemma z_grip_loop_df3:
  "z_grip_loop 3 [Fin 1, Fin 1, Fin 1] [Fin 30, Fin 40, Fin 50] = [Fin (- 1), Fin 0, Fin 1]"
  by (simp add: z_grip_loop_def z_grip_step_def grip_division_def sex_subset_all3
      mean_grip3 std_grip3 rowwise_def upt3 feq_def fsub_def)

lemma construct_df3: "construct_iri df3 = Inr h3"
proof -
  have cols: "df_col df3 ''RIAGENDR'' = Inr [Fin 1, Fin 1, Fin 1]"
    by (simp_all add: df_col_def df3_def)
  have gets: "df_get df3 ''LBXHSCRP'' d = [Fin 1, Fin 2, Fin 4]"
    "df_get df3 ''LBXSAL'' d = [Fin 3, Fin 4, Fin 5]" for d
    by (simp_all add: df_get_def df3_def)
  have n: "nrows df3 = 3" by (simp add: df3_def)
  show ?thesis
    unfolding construct_iri_def
    by (simp add: Let_def cols gets n replace_zero_def grip_df3 zscore_log3 zscore_alb3
        z_grip_loop_df3 rowwise_def upt3 qcut3 h3_def)
qed

lemma wf_frame_col:
  assumes "wf_frame df" and "map_of (columns df) c = Some xs"
  shows "length xs = nrows df"
proof -
  from assms(2) have "(c, xs) \<in> set (columns df)" by (rule map_of_SomeD)
  with assms(1) show ?thesis by (auto simp: wf_frame_def list_all_iff)
qed

lemma length_df_get:
  "wf_frame df \<Longrightarrow> length dflt = nrows df \<Longrightarrow> length (df_get df c dflt) = nrows df"
  by (auto simp: df_get_def split: option.splits dest: wf_frame_col)

lemma length_nan_col: "length (nan_col df) = nrows df"
  by (simp add: nan_col_def)

lemma length_df_col: "wf_frame df \<Longrightarrow> df_col df c = Inr xs \<Longrightarrow> length xs = nrows df"
  by (auto simp: df_col_def split: option.splits dest: wf_frame_col)

lemma wf_df3: "wf_frame df3"
  by (simp add: wf_frame_def df3_def)

text \<open>The columns of a successful \<open>build_iri_cohort\<close>.\<close>

lemma build_iri_cohort_fields:
  assumes "build_iri_cohort df = Inr out"
  shows "df_col df ''RIDAGEYR'' = Inr (c_age out)"
    and "df_col df ''RIAGENDR'' = Inr (c_sex out)"
    and "c_hscrp out = df_get df ''LBXHSCRP'' (nan_col df)"
    and "c_albumin out = df_get df ''LBXSAL'' (nan_col df)"
    and "c_z_crp_inv out =
           map (\<lambda>z. fmul z (Fin (- 1))) (zscore (map (\<lambda>x. flog (replace_zero x)) (c_hscrp out)))"
    and "c_z_albumin out = zscore (c_albumin out)"
    and "c_z_almi out = z_almi_loop (nrows df) (c_sex out) (c_almi out)"
    and "c_iri out = rowwise (nrows df)
           (\<lambda>i. fadd (fadd (c_z_crp_inv out ! i) (c_z_albumin out ! i)) (c_z_almi out ! i))"
    and "qcut (map finite_part (c_iri out)) = Inr (c_iri_quartile out)"
  using assms unfolding build_iri_cohort_def Let_def
  by (auto split: sum.splits)

lemma construct_iri_fields:
  assumes "construct_iri df = Inr h"
  shows "\<exists>sex. df_col df ''RIAGENDR'' = Inr sex
           \<and> h_z_grip h = z_grip_loop (nrows df) sex (h_grip_max h)"
    and "h_hscrp h = df_get df ''LBXHSCRP'' (nan_col df)"
    and "h_albumin h = df_get df ''LBXSAL'' (nan_col df)"
    and "h_grip_max h = compute_max_grip_strength df"
    and "h_z_log_hscrp h = zscore (map (\<lambda>x. flog (replace_zero x)) (h_hscrp h))"
    and "h_z_albumin h = zscore (h_albumin h)"
    and "h_iri h = rowwise (nrows df)
           (\<lambda>i. fadd (fadd (fneg (h_z_log_hscrp h ! i)) (h_z_albumin h ! i)) (h_z_grip h ! i))"
    and "qcut (map finite_part (h_iri h)) = Inr (h_iri_quartile h)"
  using assms unfolding construct_iri_def Let_def
  by (auto split: sum.splits)

lemma division_no_inf:
  assumes "i < n" and "feq (sex ! i) (Fin v)"
  shows "fin_or_nan (fdiv (fsub (xs ! i) (series_mean (sex_subset n sex xs v)))
           (series_std (sex_subset n sex xs v)))"
  by (rule zscore_elem_no_inf) (rule sex_subset_mem [OF assms])

lemma z_almi_loop_no_inf: "i < n \<Longrightarrow> fin_or_nan (z_almi_loop n sex almi ! i)"
  by (auto simp: z_almi_loop_nth almi_division_def Let_def division_no_inf
      split: option.splits if_splits) (simp_all add: fin_or_nan_def)

lemma z_grip_loop_no_inf: "i < n \<Longrightarrow> fin_or_nan (z_grip_loop n sex grip ! i)"
  by (auto simp: z_grip_loop_nth grip_division_def Let_def division_no_inf
      split: option.splits if_splits) (simp_all add: fin_or_nan_def)

lemma cohort_components_no_inf:
  assumes wf: "wf_frame df" and i: "i < nrows df" and ok: "build_iri_cohort df = Inr out"
  shows "fin_or_nan (c_z_crp_inv out ! i)" and "fin_or_nan (c_z_albumin out ! i)"
    and "fin_or_nan (c_z_almi out ! i)"
    and "c_z_crp_inv out ! i = fneg (zscore (map (\<lambda>x. flog (replace_zero x)) (c_hscrp out)) ! i)"
proof -
  note f = build_iri_cohort_fields [OF ok]
  have lh: "length (c_hscrp out) = nrows df"
    by (simp add: f(3) length_df_get [OF wf] length_nan_col)
  have la: "length (c_albumin out) = nrows df"
    by (simp add: f(4) length_df_get [OF wf] length_nan_col)
  have ll: "i < length (map (\<lambda>x. flog (replace_zero x)) (c_hscrp out))"
    using lh i by simp
  have lz: "i < length (zscore (map (\<lambda>x. flog (replace_zero x)) (c_hscrp out)))"
    using ll by (simp add: zscore_def)
  show inv: "c_z_crp_inv out ! i = fneg (zscore (map (\<lambda>x. flog (replace_zero x)) (c_hscrp out)) ! i)"
    using lz by (simp only: f(5) nth_map fmul_minus_one)
  show "fin_or_nan (c_z_crp_inv out ! i)"
    unfolding inv by (rule fin_or_nan_fneg) (rule zscore_no_inf [OF ll])
  show "fin_or_nan (c_z_albumin out ! i)"
    unfolding f(6) using la i by (simp add: zscore_no_inf)
  show "fin_or_nan (c_z_almi out ! i)"
    unfolding f(7) by (rule z_almi_loop_no_inf [OF i])
qed

lemma cohort_iri_nth:
  assumes "i < nrows df" and "build_iri_cohort df = Inr out"
  shows "c_iri out ! i = fadd (fadd (c_z_crp_inv out ! i) (c_z_albumin out ! i)) (c_z_almi out ! i)"
  using assms(1) by (simp add: build_iri_cohort_fields(8) [OF assms(2)] rowwise_nth)

lemma cohort_iri_no_inf:
  assumes "wf_frame df" and "i < nrows df" and "build_iri_cohort df = Inr out"
  shows "fin_or_nan (c_iri out ! i)"
  unfolding cohort_iri_nth [OF assms(2,3)]
  by (rule fadd3_no_inf) (rule cohort_components_no_inf [OF assms])+

lemma length_zscore: "length (zscore xs) = length xs"
  by (simp add: zscore_def)

lemma harmonized_components_no_inf:
  assumes wf: "wf_frame df" and i: "i < nrows df" and ok: "construct_iri df = Inr h"
  shows "fin_or_nan (fneg (h_z_log_hscrp h ! i))" and "fin_or_nan (h_z_albumin h ! i)"
    and "fin_or_nan (h_z_grip h ! i)"
proof -
  note f = construct_iri_fields [OF ok]
  have lh: "length (h_hscrp h) = nrows df"
    by (simp add: f(2) length_df_get [OF wf] length_nan_col)
  have la: "length (h_albumin h) = nrows df"
    by (simp add: f(3) length_df_get [OF wf] length_nan_col)
  have ll: "i < length (map (\<lambda>x. flog (replace_zero x)) (h_hscrp h))"
    using lh i by simp
  show "fin_or_nan (fneg (h_z_log_hscrp h ! i))"
    unfolding f(5) by (rule fin_or_nan_fneg) (rule zscore_no_inf [OF ll])
  show "fin_or_nan (h_z_albumin h ! i)"
    unfolding f(6) using la i by (simp add: zscore_no_inf)
  from f(1) obtain sex where "h_z_grip h = z_grip_loop (nrows df) sex (h_grip_max h)" by blast
  then show "fin_or_nan (h_z_grip h ! i)"
    by (simp add: z_grip_loop_no_inf [OF i])
qed

lemma construct_iri_nth:
  assumes "i < nrows df" and "construct_iri df = Inr h"
  shows "h_iri h ! i = fadd (fadd (fneg (h_z_log_hscrp h ! i)) (h_z_albumin h ! i)) (h_z_grip h ! i)"
  using assms(1) by (simp add: construct_iri_fields(7) [OF assms(2)] rowwise_nth)

lemma construct_iri_no_inf:
  assumes "wf_frame df" and "i < nrows df" and "construct_iri df = Inr h"
  shows "fin_or_nan (h_iri h ! i)"
  unfolding construct_iri_nth [OF assms(2,3)]
  by (rule fadd3_no_inf) (rule harmonized_components_no_inf [OF assms])+

lemma isna_fneg: "isna (fneg x) = isna x"
  by (cases x) simp_all

lemma fneg_Fin_iff: "fneg x = Fin a \<longleftrightarrow> x = Fin (- a)"
  by (cases x) auto

section \<open>The composite index\<close>

text \<open>
  C1.  For every subject the composite index is missing exactly when one of its three
  standardised components is missing, in the cohort script and in the harmonization
  script; when the three are present the index is their sum, the inflammation component
  entering with its sign flipped, and never a partial sum.
\<close>

theorem composite_index_missing_iff:
  assumes "wf_frame df" and "i < nrows df"
  shows "(build_iri_cohort df = Inr out \<longrightarrow>
            (isna (c_iri out ! i) \<longleftrightarrow>
               isna (c_z_crp_inv out ! i) \<or> isna (c_z_albumin out ! i) \<or> isna (c_z_almi out ! i))
          \<and> c_z_crp_inv out ! i =
              fneg (zscore (map (\<lambda>x. flog (replace_zero x)) (c_hscrp out)) ! i)
          \<and> (\<not> isna (c_iri out ! i) \<longrightarrow>
               (\<exists>a b c. c_z_crp_inv out ! i = Fin a \<and> c_z_albumin out ! i = Fin b
                  \<and> c_z_almi out ! i = Fin c \<and> c_iri out ! i = Fin (a + b + c))))
       \<and> (construct_iri df = Inr h \<longrightarrow>
            (isna (h_iri h ! i) \<longleftrightarrow>
               isna (h_z_log_hscrp h ! i) \<or> isna (h_z_albumin h ! i) \<or> isna (h_z_grip h ! i))
          \<and> (\<not> isna (h_iri h ! i) \<longrightarrow>
               (\<exists>a b c. h_z_log_hscrp h ! i = Fin a \<and> h_z_albumin h ! i = Fin b
                  \<and> h_z_grip h ! i = Fin c \<and> h_iri h ! i = Fin (- a + b + c))))"
proof (intro conjI impI)
  assume ok: "build_iri_cohort df = Inr out"
  note c = cohort_components_no_inf [OF assms ok]
  note eq = cohort_iri_nth [OF assms(2) ok]
  show "isna (c_iri out ! i) \<longleftrightarrow>
      isna (c_z_crp_inv out ! i) \<or> isna (c_z_albumin out ! i) \<or> isna (c_z_almi out ! i)"
    unfolding eq by (rule fadd3_isna [OF c(1,2,3)])
  show "c_z_crp_inv out ! i = fneg (zscore (map (\<lambda>x. flog (replace_zero x)) (c_hscrp out)) ! i)"
    by (rule c(4))
  assume "\<not> isna (c_iri out ! i)"
  then show "\<exists>a b c. c_z_crp_inv out ! i = Fin a \<and> c_z_albumin out ! i = Fin b
      \<and> c_z_almi out ! i = Fin c \<and> c_iri out ! i = Fin (a + b + c)"
    unfolding eq by (rule fadd3_value [OF _ c(1,2,3)])
next
  assume ok: "construct_iri df = Inr h"
  note c = harmonized_components_no_inf [OF assms ok]
  note eq = construct_iri_nth [OF assms(2) ok]
  show "isna (h_iri h ! i) \<longleftrightarrow>
      isna (h_z_log_hscrp h ! i) \<or> isna (h_z_albumin h ! i) \<or> isna (h_z_grip h ! i)"
    unfolding eq using fadd3_isna [OF c(1,2,3)] by (simp add: isna_fneg)
  assume "\<not> isna (h_iri h ! i)"
  then have "\<exists>x y z. fneg (h_z_log_hscrp h ! i) = Fin x \<and> h_z_albumin h ! i = Fin y
      \<and> h_z_grip h ! i = Fin z
      \<and> fadd (fadd (fneg (h_z_log_hscrp h ! i)) (h_z_albumin h ! i)) (h_z_grip h ! i)
          = Fin (x + y + z)"
    unfolding eq by (rule fadd3_value [OF _ c(1,2,3)])
  then obtain x y z where "h_z_log_hscrp h ! i = Fin (- x)" "h_z_albumin h ! i = Fin y"
    "h_z_grip h ! i = Fin z" "h_iri h ! i = Fin (x + y + z)"
    unfolding eq by (auto simp: fneg_Fin_iff)
  then show "\<exists>a b c. h_z_log_hscrp h ! i = Fin a \<and> h_z_albumin h ! i = Fin b
      \<and> h_z_grip h ! i = Fin c \<and> h_iri h ! i = Fin (- a + b + c)"
    by simp
qed

theorem composite_index_missing_iff_witness:
  "wf_frame df3 \<and> (1::nat) < nrows df3 \<and> build_iri_cohort df3 = Inr out3
     \<and> construct_iri df3 = Inr h3
     \<and> (isna (c_iri out3 ! 1) \<longleftrightarrow>
          isna (c_z_crp_inv out3 ! 1) \<or> isna (c_z_albumin out3 ! 1) \<or> isna (c_z_almi out3 ! 1))
     \<and> (isna (h_iri h3 ! 1) \<longleftrightarrow>
          isna (h_z_log_hscrp h3 ! 1) \<or> isna (h_z_albumin h3 ! 1) \<or> isna (h_z_grip h3 ! 1))
     \<and> c_iri out3 ! 1 = Fin 0 \<and> h_iri h3 ! 1 = Fin 0"
proof -
  have i: "(1::nat) < nrows df3" by (simp add: df3_def)
  note t = composite_index_missing_iff [OF wf_df3 i, of out3 h3]
  have a: "isna (c_iri out3 ! 1) \<longleftrightarrow>
      isna (c_z_crp_inv out3 ! 1) \<or> isna (c_z_albumin out3 ! 1) \<or> isna (c_z_almi out3 ! 1)"
    using t build_df3 by blast
  have b: "isna (h_iri h3 ! 1) \<longleftrightarrow>
      isna (h_z_log_hscrp h3 ! 1) \<or> isna (h_z_albumin h3 ! 1) \<or> isna (h_z_grip h3 ! 1)"
    using t construct_df3 by blast
  have c: "c_iri out3 ! 1 = Fin 0" "h_iri h3 ! 1 = Fin 0"
    by (simp_all add: out3_def h3_def)
  show ?thesis using wf_df3 i build_df3 construct_df3 a b c by blast
qed

lemma upt2: "[0..<2] = [0, 1]"
  by (simp add: upt_rec)

section \<open>Lean mass\<close>

text \<open>
  C3.  The lean-mass sum of a subject should be missing unless the four limb values are
  present.  \<open>calculate_alm\<close> tests the columns, not the row, and sums with the
  NaN-skipping row sum: on the table \<open>df_alm\<close> the subject with three limbs gets the
  partial sum 10.1 kg and the subject without a scan gets 0 kg.
\<close>

theorem calculate_alm_partial_sum: "calculate_alm df_alm = [Fin 10.1, Fin 0]"
  by (simp add: calculate_alm_def df_alm_def alm_cols_def has_col_def rowwise_def upt2 df_get_def
      sum_skipna_def present_def notna_def fsum_Cons fsum_Nil)

text \<open>With the four limb values present the result is their sum in grams over 1000.\<close>

lemma calculate_alm_all_present:
  assumes "wf_frame df" and "i < nrows df"
    and "map_of (columns df) ''DXDLALE'' = Some la" and "map_of (columns df) ''DXDRALE'' = Some ra"
    and "map_of (columns df) ''DXDLLLE'' = Some ll" and "map_of (columns df) ''DXDRLLE'' = Some rl"
    and "la ! i = Fin a" and "ra ! i = Fin b" and "ll ! i = Fin c" and "rl ! i = Fin d"
  shows "calculate_alm df ! i = Fin ((a + b + c + d) / 1000)"
  using assms
  by (simp add: calculate_alm_def alm_cols_def has_col_def rowwise_nth length_rowwise df_get_def
      sum_skipna_def present_def notna_def fsum_Cons fsum_Nil)

lemma b2f_cases: "b2f b = Fin 0 \<or> b2f b = Fin 1"
  by (simp add: b2f_def)

lemma missing_at_nan:
  "i < nrows df \<Longrightarrow> missing_at df c i \<Longrightarrow> df_get df c (nan_col df) ! i = NaN"
  by (cases "df_get df c (nan_col df) ! i")
    (auto simp: missing_at_def df_get_def nan_col_def split: option.splits)

lemma missing_at_const:
  "i < nrows df \<Longrightarrow> missing_at df c i \<Longrightarrow> \<not> feq (df_get df c (const_col df (Fin 2)) ! i) (Fin 1)"
  by (cases "df_get df c (const_col df (Fin 2)) ! i")
    (auto simp: missing_at_def df_get_def const_col_def feq_def split: option.splits)

lemma build_iri_cohort_flags:
  assumes "build_iri_cohort df = Inr out"
  shows "c_diabetes out = rowwise (nrows df)
           (\<lambda>i. cohort_diabetes (df_get df ''LBXGH'' (nan_col df) ! i)
              (df_get df ''LBXGLU'' (nan_col df) ! i) (df_get df ''DIQ010'' (nan_col df) ! i))"
    and "c_cvd_history out = rowwise (nrows df)
           (\<lambda>i. cohort_cvd_history (df_get df ''MCQ160C'' (const_col df (Fin 2)) ! i)
              (df_get df ''MCQ160E'' (const_col df (Fin 2)) ! i)
              (df_get df ''MCQ160F'' (const_col df (Fin 2)) ! i)
              (df_get df ''MCQ160D'' (const_col df (Fin 2)) ! i)
              (df_get df ''MCQ160B'' (const_col df (Fin 2)) ! i))"
    and "c_hypertension out = rowwise (nrows df)
           (\<lambda>i. cohort_hypertension (c_mean_sbp out ! i) (c_mean_dbp out ! i)
              (df_get df ''BPQ040A'' (nan_col df) ! i))"
  using assms unfolding build_iri_cohort_def Let_def
  by (auto split: sum.splits)

section \<open>Disease flags\<close>

text \<open>
  C10.  The diabetes flag and the cardiovascular-history flag are total, in the
  harmonization script and in the cohort script: for every subject they are 0 or 1 and
  never missing, and a subject whose contributing fields are all missing gets 0.
\<close>

theorem disease_flags_total:
  assumes "i < nrows df"
  shows "(define_diabetes df ! i = Fin 0 \<or> define_diabetes df ! i = Fin 1)
       \<and> (define_cvd_history df ! i = Fin 0 \<or> define_cvd_history df ! i = Fin 1)
       \<and> (build_iri_cohort df = Inr out \<longrightarrow>
            (c_diabetes out ! i = Fin 0 \<or> c_diabetes out ! i = Fin 1)
          \<and> (c_cvd_history out ! i = Fin 0 \<or> c_cvd_history out ! i = Fin 1))
       \<and> (list_all (\<lambda>c. missing_at df c i) [''LBXGH'', ''LBXGLU'', ''DIQ010'', ''DIQ050'', ''DIQ070'']
            \<longrightarrow> define_diabetes df ! i = Fin 0
              \<and> (build_iri_cohort df = Inr out \<longrightarrow> c_diabetes out ! i = Fin 0))
       \<and> (list_all (\<lambda>c. missing_at df c i)
              [''MCQ160B'', ''MCQ160C'', ''MCQ160D'', ''MCQ160E'', ''MCQ160F'']
            \<longrightarrow> define_cvd_history df ! i = Fin 0
              \<and> (build_iri_cohort df = Inr out \<longrightarrow> c_cvd_history out ! i = Fin 0))"
proof (intro conjI impI)
  show "define_diabetes df ! i = Fin 0 \<or> define_diabetes df ! i = Fin 1"
    using assms by (simp add: define_diabetes_def rowwise_nth diabetes_row_def b2f_cases)
  show "define_cvd_history df ! i = Fin 0 \<or> define_cvd_history df ! i = Fin 1"
    using assms by (simp add: define_cvd_history_def rowwise_nth cvd_row_def b2f_cases)
next
  assume ok: "build_iri_cohort df = Inr out"
  show "c_diabetes out ! i = Fin 0 \<or> c_diabetes out ! i = Fin 1"
    using assms
    by (simp add: build_iri_cohort_flags(1) [OF ok] rowwise_nth cohort_diabetes_def b2f_cases)
  show "c_cvd_history out ! i = Fin 0 \<or> c_cvd_history out ! i = Fin 1"
    using assms
    by (simp add: build_iri_cohort_flags(2) [OF ok] rowwise_nth cohort_cvd_history_def b2f_cases)
next
  assume m: "list_all (\<lambda>c. missing_at df c i)
      [''LBXGH'', ''LBXGLU'', ''DIQ010'', ''DIQ050'', ''DIQ070'']"
  then show "define_diabetes df ! i = Fin 0"
    using assms
    by (simp add: define_diabetes_def Let_def rowwise_nth diabetes_row_def missing_at_nan b2f_def
        fge_def fle_def feq_def)
  assume ok: "build_iri_cohort df = Inr out"
  show "c_diabetes out ! i = Fin 0"
    using assms m
    by (simp add: build_iri_cohort_flags(1) [OF ok] rowwise_nth cohort_diabetes_def
        missing_at_nan b2f_def fge_def fle_def feq_def)
next
  assume m: "list_all (\<lambda>c. missing_at df c i)
      [''MCQ160B'', ''MCQ160C'', ''MCQ160D'', ''MCQ160E'', ''MCQ160F'']"
  then show "define_cvd_history df ! i = Fin 0"
    using assms
    by (simp add: define_cvd_history_def Let_def rowwise_nth cvd_row_def missing_at_const b2f_def)
  assume ok: "build_iri_cohort df = Inr out"
  show "c_cvd_history out ! i = Fin 0"
    using assms m
    by (simp add: build_iri_cohort_flags(2) [OF ok] rowwise_nth cohort_cvd_history_def
        missing_at_const b2f_def)
qed

theorem disease_flags_total_witness:
  "(1::nat) < nrows df3 \<and> build_iri_cohort df3 = Inr out3
   \<and> list_all (\<lambda>c. missing_at df3 c 1) [''LBXGH'', ''LBXGLU'', ''DIQ010'', ''DIQ050'', ''DIQ070'']
   \<and> list_all (\<lambda>c. missing_at df3 c 1)
        [''MCQ160B'', ''MCQ160C'', ''MCQ160D'', ''MCQ160E'', ''MCQ160F'']
   \<and> define_diabetes df3 ! 1 = Fin 0 \<and> define_cvd_history df3 ! 1 = Fin 0
   \<and> c_diabetes out3 ! 1 = Fin 0 \<and> c_cvd_history out3 ! 1 = Fin 0"
proof -
  have i: "(1::nat) < nrows df3" by (simp add: df3_def)
  have m1: "list_all (\<lambda>c. missing_at df3 c 1)
      [''LBXGH'', ''LBXGLU'', ''DIQ010'', ''DIQ050'', ''DIQ070'']"
    by (simp add: missing_at_def df3_def)
  have m2: "list_all (\<lambda>c. missing_at df3 c 1)
      [''MCQ160B'', ''MCQ160C'', ''MCQ160D'', ''MCQ160E'', ''MCQ160F'']"
    by (simp add: missing_at_def df3_def)
  note t = disease_flags_total [OF i, of out3]
  from t m1 m2 build_df3 have "define_diabetes df3 ! 1 = Fin 0" "define_cvd_history df3 ! 1 = Fin 0"
    "c_diabetes out3 ! 1 = Fin 0" "c_cvd_history out3 ! 1 = Fin 0"
    by blast+
  with i m1 m2 build_df3 show ?thesis by blast
qed

section \<open>Hypertension\<close>

lemma hypertension_row_spec:
  "hypertension_row sbp dbp bp_med =
     (if fge sbp (Fin 130) \<or> fge dbp (Fin 80) \<or> feq bp_med (Fin 1) then Fin 1
      else if isna sbp \<and> isna dbp \<and> isna bp_med then NaN else Fin 0)"
  by (simp add: hypertension_row_def b2f_def)

lemma hypertension_row_missing_iff:
  "isna (hypertension_row sbp dbp bp_med) \<longleftrightarrow> isna sbp \<and> isna dbp \<and> isna bp_med"
  by (cases sbp; cases dbp; cases bp_med)
    (simp_all add: hypertension_row_spec fge_def fle_def feq_def)

lemma cohort_hypertension_not_missing: "\<not> isna (cohort_hypertension sbp dbp bp_med)"
  by (simp add: cohort_hypertension_def b2f_def)

text \<open>
  C6.  The hypertension flag should be missing exactly when the mean systolic pressure,
  the mean diastolic pressure and the medication answer are all missing.
  \<open>define_hypertension\<close> of the harmonization script does that
  (\<open>hypertension_row_missing_iff\<close>); the cohort script only casts the disjunction to
  float, so the second subject of \<open>df3\<close>, who has none of the three inputs, gets the flag
  0.
\<close>

theorem cohort_hypertension_false_flag:
  "build_iri_cohort df3 = Inr out3
   \<and> isna (c_mean_sbp out3 ! 1) \<and> isna (c_mean_dbp out3 ! 1)
   \<and> isna (df_get df3 ''BPQ040A'' (nan_col df3) ! 1)
   \<and> c_hypertension out3 ! 1 = Fin 0"
  by (simp add: build_df3) (simp add: out3_def df3_def df_get_def nan_col_def)

section \<open>The two kidney-function implementations\<close>

lemma compute_egfr_other_sex:
  "sex \<noteq> Fin 1 \<Longrightarrow> sex \<noteq> Fin 2 \<Longrightarrow> compute_egfr_ckdepi_2021 scr a sex = NaN"
  by (simp add: compute_egfr_ckdepi_2021_def feq_def)

lemma calculate_egfr_other_sex:
  "sex \<noteq> Fin 2 \<Longrightarrow> calculate_egfr_ckdepi2021 scr a sex = calculate_egfr_ckdepi2021 scr a (Fin 1)"
  by (simp add: calculate_egfr_ckdepi2021_def feq_def)

text \<open>
  C9.  The two implementations should return the same value on every row, also when the
  sex code is neither 1 nor 2.  They do not: \<open>np.where(sex == 2, \<dots>)\<close> of the cohort
  script takes the male constants for every code other than 2, where the harmonization
  script leaves the result missing.  For creatinine 0.9, age 50 and sex code 3 the cohort
  script returns \<open>142 \<times> 0.9938^50\<close> and the harmonization script NaN.
\<close>

theorem egfr_implementations_differ:
  "calculate_egfr_ckdepi2021 (Fin 0.9) (Fin 50) (Fin 3) = Fin (142 * 0.9938 ^ 50)
   \<and> compute_egfr_ckdepi_2021 (Fin 0.9) (Fin 50) (Fin 3) = NaN
   \<and> calculate_egfr_ckdepi2021 (Fin 0.9) (Fin 50) (Fin 3)
       \<noteq> compute_egfr_ckdepi_2021 (Fin 0.9) (Fin 50) (Fin 3)"
  by (simp add: calculate_egfr_ckdepi2021_def compute_egfr_ckdepi_2021_def feq_def
      fminimum_def fmaximum_def)

text \<open>
  Where the two implementations agree: for sex code 1 or 2 on every row, also for a
  missing or infinite creatinine or age.  For any other sex code, missing included, the
  harmonization script returns NaN and the cohort script returns what it returns for a
  man, which is NaN as well when the creatinine or the age is missing.
\<close>

theorem egfr_implementations_agree:
  "(sex = Fin 1 \<or> sex = Fin 2 \<longrightarrow>
      calculate_egfr_ckdepi2021 scr a sex = compute_egfr_ckdepi_2021 scr a sex)
   \<and> (sex \<noteq> Fin 1 \<and> sex \<noteq> Fin 2 \<longrightarrow>
      compute_egfr_ckdepi_2021 scr a sex = NaN
      \<and> calculate_egfr_ckdepi2021 scr a sex = calculate_egfr_ckdepi2021 scr a (Fin 1))"
  using egfr_same_female egfr_same_male compute_egfr_other_sex calculate_egfr_other_sex
  by blast

theorem egfr_implementations_agree_witness:
  "calculate_egfr_ckdepi2021 (Fin 1) (Fin 50) (Fin 2) = compute_egfr_ckdepi_2021 (Fin 1) (Fin 50) (Fin 2)
   \<and> compute_egfr_ckdepi_2021 (Fin 1) (Fin 50) NaN = NaN
   \<and> calculate_egfr_ckdepi2021 (Fin 1) (Fin 50) NaN = calculate_egfr_ckdepi2021 (Fin 1) (Fin 50) (Fin 1)"
  using egfr_implementations_agree [of "Fin 2" "Fin 1" "Fin 50"]
    egfr_implementations_agree [of NaN "Fin 1" "Fin 50"]
  by simp

section \<open>The kidney-function equation\<close>

lemma pow_term_bounds:
  "0.6518049 < (10 / 7 :: real) powr (- (6 / 5)) \<and> (10 / 7 :: real) powr (- (6 / 5)) < 0.651805"
proof -
  define y :: real where "y = (10 / 7) powr (- (6 / 5))"
  have ypos: "0 \<le> y" by (simp add: y_def)
  have "y ^ 5 = ((10 / 7) powr (- (6 / 5))) powr (real 5)"
    unfolding y_def by (rule powr_realpow [symmetric]) simp
  also have "\<dots> = (10 / 7) powr (- 6)"
    by (simp add: powr_powr)
  also have "\<dots> = (7 / 10) ^ 6"
    by (simp add: powr_minus powr_numeral inverse_eq_divide power_divide)
  finally have y5: "y ^ 5 = (7 / 10) ^ 6" .
  have lo: "0.6518049 < y"
  proof (rule ccontr)
    assume "\<not> 0.6518049 < y"
    then have "y \<le> 0.6518049" by simp
    then have "y ^ 5 \<le> 0.6518049 ^ 5" using ypos by (rule power_mono)
    then show False unfolding y5 by (simp add: power_divide)
  qed
  have hi: "y < 0.651805"
  proof (rule ccontr)
    assume "\<not> y < 0.651805"
    then have "0.651805 \<le> y" by simp
    then have "(0.651805::real) ^ 5 \<le> y ^ 5" by (rule power_mono) simp
    then show False unfolding y5 by (simp add: power_divide)
  qed
  from lo hi show ?thesis by (simp add: y_def)
qed

lemma reference_value:
  "68.63345 < ckd_epi_2021 1 50 True \<and> ckd_epi_2021 1 50 True < 68.63355"
proof -
  define y :: real where "y = (10 / 7) powr (- (6 / 5))"
  have v: "ckd_epi_2021 1 50 True = 142 * y * 0.9938 ^ 50 * 1.012"
    by (simp add: ckd_epi_2021_def y_def)
  have b: "0.6518049 < y" "y < 0.651805"
    using pow_term_bounds by (simp_all add: y_def)
  have c: "(0::real) < 142 * 0.9938 ^ 50 * 1.012" by simp
  have "68.63345 < 0.6518049 * (142 * 0.9938 ^ 50 * 1.012 :: real)"
    by (simp add: power_divide)
  also have "\<dots> < y * (142 * 0.9938 ^ 50 * 1.012)"
    using b(1) c by (rule mult_strict_right_mono)
  finally have l: "68.63345 < y * (142 * 0.9938 ^ 50 * 1.012)" .
  have "y * (142 * 0.9938 ^ 50 * 1.012) < 0.651805 * (142 * 0.9938 ^ 50 * 1.012)"
    using b(2) c by (rule mult_strict_right_mono)
  also have "\<dots> < 68.63355" by (simp add: power_divide)
  finally have u: "y * (142 * 0.9938 ^ 50 * 1.012) < 68.63355" .
  have "142 * y * 0.9938 ^ 50 * 1.012 = y * (142 * 0.9938 ^ 50 * 1.012)" by simp
  with l u v show ?thesis by simp
qed

lemma fminimum_Fin: "fminimum (Fin x) (Fin y) = Fin (min x y)"
  by (simp add: fminimum_def min_def)

lemma fmaximum_Fin: "fmaximum (Fin x) (Fin y) = Fin (max x y)"
  by (simp add: fmaximum_def max_def)

lemma fpow_pos: "0 < x \<Longrightarrow> fpow (Fin x) (Fin b) = Fin (x powr b)"
  by simp

lemma not_integral_consts:
  "\<not> is_integral (- (241 / 1000))" "\<not> is_integral (- (302 / 1000))"
  "\<not> is_integral (- (151 / 500))"
  by (simp_all add: is_integral_def)

lemma egfr_positive_creatinine:
  assumes "0 < scr"
  shows "calculate_egfr_ckdepi2021 (Fin scr) (Fin a) (Fin 2) = Fin (ckd_epi_2021 scr a True)"
    and "calculate_egfr_ckdepi2021 (Fin scr) (Fin a) (Fin 1) = Fin (ckd_epi_2021 scr a False)"
    and "compute_egfr_ckdepi_2021 (Fin scr) (Fin a) (Fin 2) = Fin (ckd_epi_2021 scr a True)"
    and "compute_egfr_ckdepi_2021 (Fin scr) (Fin a) (Fin 1) = Fin (ckd_epi_2021 scr a False)"
proof -
  have f: "0 < min (scr / 0.7) 1" "0 < max (scr / 0.7) 1"
    and m: "0 < min (scr / 0.9) 1" "0 < max (scr / 0.9) 1"
    using assms by (simp_all add: min_def max_def)
  show c2: "calculate_egfr_ckdepi2021 (Fin scr) (Fin a) (Fin 2) = Fin (ckd_epi_2021 scr a True)"
    using f
    by (simp add: calculate_egfr_ckdepi2021_def ckd_epi_2021_def Let_def feq_def
        fminimum_Fin fmaximum_Fin fpow_pos del: fpow.simps)
  show c1: "calculate_egfr_ckdepi2021 (Fin scr) (Fin a) (Fin 1) = Fin (ckd_epi_2021 scr a False)"
    using m
    by (simp add: calculate_egfr_ckdepi2021_def ckd_epi_2021_def Let_def feq_def
        fminimum_Fin fmaximum_Fin fpow_pos del: fpow.simps)
  show "compute_egfr_ckdepi_2021 (Fin scr) (Fin a) (Fin 2) = Fin (ckd_epi_2021 scr a True)"
    using c2 by (simp only: egfr_same_female)
  show "compute_egfr_ckdepi_2021 (Fin scr) (Fin a) (Fin 1) = Fin (ckd_epi_2021 scr a False)"
    using c1 by (simp only: egfr_same_male)
qed

lemma egfr_zero_creatinine:
  assumes "sex = Fin 1 \<or> sex = Fin 2"
  shows "calculate_egfr_ckdepi2021 (Fin 0) (Fin a) sex = PInf"
    and "compute_egfr_ckdepi_2021 (Fin 0) (Fin a) sex = PInf"
proof -
  have p: "0 < (0.9938::real) powr a" by simp
  show c: "calculate_egfr_ckdepi2021 (Fin 0) (Fin a) sex = PInf"
    using assms p
    by (auto simp add: calculate_egfr_ckdepi2021_def Let_def feq_def fminimum_Fin fmaximum_Fin)
  from assms show "compute_egfr_ckdepi_2021 (Fin 0) (Fin a) sex = PInf"
    using c egfr_same_female egfr_same_male by metis
qed

lemma egfr_negative_creatinine:
  assumes "scr < 0" and "sex = Fin 1 \<or> sex = Fin 2"
  shows "calculate_egfr_ckdepi2021 (Fin scr) (Fin a) sex = NaN"
    and "compute_egfr_ckdepi_2021 (Fin scr) (Fin a) sex = NaN"
proof -
  have f: "min (scr / 0.7) 1 = scr / 0.7" "scr / 0.7 < 0"
    and m: "min (scr / 0.9) 1 = scr / 0.9" "scr / 0.9 < 0"
    using assms(1) by (simp_all add: min_def)
  show c: "calculate_egfr_ckdepi2021 (Fin scr) (Fin a) sex = NaN"
    using assms f m
    by (auto simp add: calculate_egfr_ckdepi2021_def Let_def feq_def fminimum_Fin
        not_integral_consts odd_integral_def)
  from assms(2) show "compute_egfr_ckdepi_2021 (Fin scr) (Fin a) sex = NaN"
    using c egfr_same_female egfr_same_male by metis
qed

text \<open>
  C5.  For a present creatinine and age and sex code 1 or 2, both scripts compute the
  CKD-EPI 2021 equation with \<open>\<kappa> = 0.7\<close>, \<open>\<alpha> = -0.241\<close> and the factor 1.012 for women and
  \<open>\<kappa> = 0.9\<close>, \<open>\<alpha> = -0.302\<close> for men.  For a positive creatinine that is the real number the
  equation denotes; at zero the factor \<open>0^\<alpha>\<close> is infinite and below zero the fractional power
  is NaN, as floating-point arithmetic evaluates the same equation.  For creatinine 1.0, age
  50 and a woman the value is 68.6335 to four decimal places.
\<close>

theorem egfr_equation:
  "(0 < scr \<longrightarrow>
      calculate_egfr_ckdepi2021 (Fin scr) (Fin a) (Fin 2) = Fin (ckd_epi_2021 scr a True)
    \<and> calculate_egfr_ckdepi2021 (Fin scr) (Fin a) (Fin 1) = Fin (ckd_epi_2021 scr a False)
    \<and> compute_egfr_ckdepi_2021 (Fin scr) (Fin a) (Fin 2) = Fin (ckd_epi_2021 scr a True)
    \<and> compute_egfr_ckdepi_2021 (Fin scr) (Fin a) (Fin 1) = Fin (ckd_epi_2021 scr a False))
   \<and> (scr = 0 \<and> (sex = Fin 1 \<or> sex = Fin 2) \<longrightarrow>
      calculate_egfr_ckdepi2021 (Fin scr) (Fin a) sex = PInf
    \<and> compute_egfr_ckdepi_2021 (Fin scr) (Fin a) sex = PInf)
   \<and> (scr < 0 \<and> (sex = Fin 1 \<or> sex = Fin 2) \<longrightarrow>
      calculate_egfr_ckdepi2021 (Fin scr) (Fin a) sex = NaN
    \<and> compute_egfr_ckdepi_2021 (Fin scr) (Fin a) sex = NaN)
   \<and> 68.63345 < ckd_epi_2021 1 50 True \<and> ckd_epi_2021 1 50 True < 68.63355"
proof (intro conjI impI)
  assume "0 < scr"
  then show "calculate_egfr_ckdepi2021 (Fin scr) (Fin a) (Fin 2) = Fin (ckd_epi_2021 scr a True)"
    and "calculate_egfr_ckdepi2021 (Fin scr) (Fin a) (Fin 1) = Fin (ckd_epi_2021 scr a False)"
    and "compute_egfr_ckdepi_2021 (Fin scr) (Fin a) (Fin 2) = Fin (ckd_epi_2021 scr a True)"
    and "compute_egfr_ckdepi_2021 (Fin scr) (Fin a) (Fin 1) = Fin (ckd_epi_2021 scr a False)"
    by (rule egfr_positive_creatinine)+
next
  assume z: "scr = 0 \<and> (sex = Fin 1 \<or> sex = Fin 2)"
  then show "calculate_egfr_ckdepi2021 (Fin scr) (Fin a) sex = PInf"
    using egfr_zero_creatinine(1) [of sex a] by simp
  from z show "compute_egfr_ckdepi_2021 (Fin scr) (Fin a) sex = PInf"
    using egfr_zero_creatinine(2) [of sex a] by simp
next
  assume n: "scr < 0 \<and> (sex = Fin 1 \<or> sex = Fin 2)"
  then show "calculate_egfr_ckdepi2021 (Fin scr) (Fin a) sex = NaN"
    using egfr_negative_creatinine(1) [of scr sex a] by simp
  from n show "compute_egfr_ckdepi_2021 (Fin scr) (Fin a) sex = NaN"
    using egfr_negative_creatinine(2) [of scr sex a] by simp
next
  show "68.63345 < ckd_epi_2021 1 50 True" and "ckd_epi_2021 1 50 True < 68.63355"
    using reference_value by simp_all
qed

theorem egfr_equation_witness:
  "(0::real) < 1
   \<and> calculate_egfr_ckdepi2021 (Fin 1) (Fin 50) (Fin 2) = Fin (ckd_epi_2021 1 50 True)
   \<and> compute_egfr_ckdepi_2021 (Fin 1) (Fin 50) (Fin 2) = Fin (ckd_epi_2021 1 50 True)
   \<and> calculate_egfr_ckdepi2021 (Fin 0) (Fin 50) (Fin 2) = PInf
   \<and> compute_egfr_ckdepi_2021 (Fin (- 1)) (Fin 50) (Fin 1) = NaN"
  using egfr_equation [of 1 50 "Fin 2"] egfr_equation [of 0 50 "Fin 2"]
    egfr_equation [of "- 1" 50 "Fin 1"]
  by simp

section \<open>Eligibility\<close>

lemma eligibility_row_spec:
  "eligibility_row a p h alb g =
     (b2i (\<not> flt a (Fin 18) \<and> \<not> feq p (Fin 1) \<and> notna h \<and> notna alb \<and> notna g),
      b2i (notna h \<and> notna alb \<and> notna g),
      b2i (\<not> flt a (Fin 18) \<and> \<not> feq p (Fin 1) \<and> notna h \<and> notna alb \<and> notna g
           \<and> fle h (Fin 10)))"
  by (simp add: eligibility_row_def Let_def b2i_def)

lemma apply_eligibility_criteria_fields:
  assumes "apply_eligibility_criteria df = Inr e" and "i < nrows df"
  shows "\<exists>a p h alb g. df_col df ''age'' = Inr a \<and> df_col df ''pregnant'' = Inr p
           \<and> df_col df ''hscrp'' = Inr h \<and> df_col df ''albumin'' = Inr alb
           \<and> df_col df ''grip_max'' = Inr g
           \<and> (e_eligible e ! i, e_has_iri_components e ! i, e_primary_analysis e ! i)
               = eligibility_row (a ! i) (p ! i) (h ! i) (alb ! i) (g ! i)"
  using assms unfolding apply_eligibility_criteria_def Let_def
  by (auto split: sum.splits simp: rowwise_nth length_rowwise)

lemma build_iri_cohort_eligible:
  assumes "build_iri_cohort df = Inr out" and "i < nrows df"
  shows "c_eligible out ! i =
           cohort_eligible (c_age out ! i) (c_iri out ! i) (c_hscrp out ! i) (c_mec_weight out ! i)"
  using assms unfolding build_iri_cohort_def Let_def
  by (auto split: sum.splits simp: rowwise_nth)

lemma cohort_eligible_spec:
  "cohort_eligible a x h w = b2i (fge a (Fin 20) \<and> notna x \<and> fle h (Fin 10) \<and> notna w)"
  by (simp add: cohort_eligible_def Let_def b2i_def)

lemma apply_df_elig:
  "apply_eligibility_criteria df_elig =
     Inr \<lparr> e_eligible = [1], e_has_iri_components = [1], e_primary_analysis = [1] \<rparr>"
  by (simp add: apply_eligibility_criteria_def df_col_def df_elig_def rowwise_def
      eligibility_row_spec b2i_def notna_def fle_def feq_def)

text \<open>
  C7.  As stated the claim fails in both scripts.  In the harmonization script a subject
  without a survey weight is eligible; in the cohort script two subjects who differ only
  in hs-CRP, 5 against 15 mg/L, differ in eligibility.
\<close>

theorem eligibility_counterexample:
  "apply_eligibility_criteria df_elig =
     Inr \<lparr> e_eligible = [1], e_has_iri_components = [1], e_primary_analysis = [1] \<rparr>
   \<and> isna (df_get df_elig ''WTMEC2YR'' (nan_col df_elig) ! 0)
   \<and> isna (df_get df_elig ''WTMECPRP'' (nan_col df_elig) ! 0)
   \<and> cohort_eligible (Fin 50) (Fin 0) (Fin 5) (Fin 1000) = 1
   \<and> cohort_eligible (Fin 50) (Fin 0) (Fin 15) (Fin 1000) = 0"
  by (simp add: apply_df_elig)
    (simp add: df_get_def df_elig_def cohort_eligible_spec b2i_def notna_def fle_def feq_def
      fge_def)

text \<open>
  C7, amended.  In the harmonization script the eligibility flag of a subject is 1 exactly
  when the age is not below 18, the subject is not pregnant and the three raw components
  (hs-CRP, albumin, grip strength) are present: it does not depend on the hs-CRP value
  beyond its presence, nor on the survey weight or the composite index; the
  primary-analysis flag is eligibility conjoined with hs-CRP at most 10.  In the cohort
  script there is no primary-analysis flag, and the eligibility flag is 1 exactly when
  the age is at least 20, the composite index is not missing, hs-CRP is at most 10 and
  the survey weight is not missing.
\<close>

theorem eligibility_flags:
  assumes "i < nrows df"
  shows "(apply_eligibility_criteria df = Inr e \<and> df_col df ''age'' = Inr a
            \<and> df_col df ''pregnant'' = Inr p \<and> df_col df ''hscrp'' = Inr h
            \<and> df_col df ''albumin'' = Inr alb \<and> df_col df ''grip_max'' = Inr g \<longrightarrow>
            e_eligible e ! i =
              b2i (\<not> flt (a ! i) (Fin 18) \<and> \<not> feq (p ! i) (Fin 1)
                   \<and> notna (h ! i) \<and> notna (alb ! i) \<and> notna (g ! i))
          \<and> e_primary_analysis e ! i = b2i (e_eligible e ! i = 1 \<and> fle (h ! i) (Fin 10)))
       \<and> (build_iri_cohort df = Inr out \<longrightarrow>
            c_eligible out ! i =
              b2i (fge (c_age out ! i) (Fin 20) \<and> notna (c_iri out ! i)
                   \<and> fle (c_hscrp out ! i) (Fin 10) \<and> notna (c_mec_weight out ! i)))"
proof (intro conjI impI)
  assume h: "apply_eligibility_criteria df = Inr e \<and> df_col df ''age'' = Inr a
      \<and> df_col df ''pregnant'' = Inr p \<and> df_col df ''hscrp'' = Inr h
      \<and> df_col df ''albumin'' = Inr alb \<and> df_col df ''grip_max'' = Inr g"
  with apply_eligibility_criteria_fields [of df e i] assms
  have row: "(e_eligible e ! i, e_has_iri_components e ! i, e_primary_analysis e ! i)
      = eligibility_row (a ! i) (p ! i) (h ! i) (alb ! i) (g ! i)"
    by auto
  from row show "e_eligible e ! i =
      b2i (\<not> flt (a ! i) (Fin 18) \<and> \<not> feq (p ! i) (Fin 1)
           \<and> notna (h ! i) \<and> notna (alb ! i) \<and> notna (g ! i))"
    by (simp add: eligibility_row_spec)
  from row show "e_primary_analysis e ! i = b2i (e_eligible e ! i = 1 \<and> fle (h ! i) (Fin 10))"
    by (auto simp: eligibility_row_spec b2i_def)
next
  assume "build_iri_cohort df = Inr out"
  then show "c_eligible out ! i =
      b2i (fge (c_age out ! i) (Fin 20) \<and> notna (c_iri out ! i)
           \<and> fle (c_hscrp out ! i) (Fin 10) \<and> notna (c_mec_weight out ! i))"
    using assms by (simp add: build_iri_cohort_eligible cohort_eligible_spec)
qed

theorem eligibility_flags_witness:
  "(0::nat) < nrows df_elig
   \<and> apply_eligibility_criteria df_elig =
       Inr \<lparr> e_eligible = [1], e_has_iri_components = [1], e_primary_analysis = [1] \<rparr>
   \<and> df_col df_elig ''age'' = Inr [Fin 50] \<and> df_col df_elig ''pregnant'' = Inr [Fin 0]
   \<and> df_col df_elig ''hscrp'' = Inr [Fin 2] \<and> df_col df_elig ''albumin'' = Inr [Fin 4]
   \<and> df_col df_elig ''grip_max'' = Inr [Fin 40]
   \<and> (1::int) = b2i (\<not> flt (Fin 50) (Fin 18) \<and> \<not> feq (Fin 0) (Fin 1)
                 \<and> notna (Fin 2) \<and> notna (Fin 4) \<and> notna (Fin 40))
   \<and> (2::nat) < nrows df3 \<and> build_iri_cohort df3 = Inr out3
   \<and> c_eligible out3 ! 2 =
       b2i (fge (c_age out3 ! 2) (Fin 20) \<and> notna (c_iri out3 ! 2)
            \<and> fle (c_hscrp out3 ! 2) (Fin 10) \<and> notna (c_mec_weight out3 ! 2))
   \<and> c_eligible out3 ! 2 = 0"
proof -
  have i0: "(0::nat) < nrows df_elig" by (simp add: df_elig_def)
  have i2: "(2::nat) < nrows df3" by (simp add: df3_def)
  have ap: "apply_eligibility_criteria df_elig =
       Inr \<lparr> e_eligible = [1], e_has_iri_components = [1], e_primary_analysis = [1] \<rparr>"
    by (rule apply_df_elig)
  have cols: "df_col df_elig ''age'' = Inr [Fin 50]" "df_col df_elig ''pregnant'' = Inr [Fin 0]"
    "df_col df_elig ''hscrp'' = Inr [Fin 2]" "df_col df_elig ''albumin'' = Inr [Fin 4]"
    "df_col df_elig ''grip_max'' = Inr [Fin 40]"
    by (simp_all add: df_col_def df_elig_def)
  from eligibility_flags [OF i0, of "\<lparr> e_eligible = [1], e_has_iri_components = [1],
      e_primary_analysis = [1] \<rparr>" "[Fin 50]" "[Fin 0]" "[Fin 2]" "[Fin 4]" "[Fin 40]"] ap cols
  have a: "(1::int) = b2i (\<not> flt (Fin 50) (Fin 18) \<and> \<not> feq (Fin 0) (Fin 1)
                 \<and> notna (Fin 2) \<and> notna (Fin 4) \<and> notna (Fin 40))"
    by simp
  from eligibility_flags [OF i2, of _ _ _ _ _ _ out3] build_df3
  have b: "c_eligible out3 ! 2 =
       b2i (fge (c_age out3 ! 2) (Fin 20) \<and> notna (c_iri out3 ! 2)
            \<and> fle (c_hscrp out3 ! 2) (Fin 10) \<and> notna (c_mec_weight out3 ! 2))"
    by blast
  have c: "c_eligible out3 ! 2 = 0" by (simp add: out3_def)
  from i0 i2 ap cols a b c build_df3 show ?thesis by blast
qed

section \<open>Mortality linkage\<close>

lemma drop_duplicates_keys:
  "m \<in> set (drop_duplicates ms seen) \<Longrightarrow> m_SEQN m \<notin> set seen"
  by (induction ms seen rule: drop_duplicates.induct) (auto split: if_splits)

lemma drop_duplicates_distinct: "distinct (map m_SEQN (drop_duplicates ms seen))"
proof (induction ms seen rule: drop_duplicates.induct)
  case (1 seen)
  then show ?case by simp
next
  case (2 m ms seen)
  show ?case
  proof (cases "m_SEQN m \<in> set seen")
    case True
    with 2 show ?thesis by simp
  next
    case False
    have "m_SEQN m \<notin> m_SEQN ` set (drop_duplicates ms (m_SEQN m # seen))"
    proof
      assume "m_SEQN m \<in> m_SEQN ` set (drop_duplicates ms (m_SEQN m # seen))"
      then obtain x where x: "x \<in> set (drop_duplicates ms (m_SEQN m # seen))"
        and e: "m_SEQN x = m_SEQN m" by auto
      from drop_duplicates_keys [OF x] have "m_SEQN x \<noteq> m_SEQN m" by simp
      with e show False by simp
    qed
    with False 2 show ?thesis by simp
  qed
qed

lemma filter_distinct_key:
  "distinct (map f xs) \<Longrightarrow>
     filter (\<lambda>x. f x = k) xs = (case find (\<lambda>x. f x = k) xs of None \<Rightarrow> [] | Some x \<Rightarrow> [x])"
proof (induction xs)
  case Nil
  then show ?case by simp
next
  case (Cons x xs)
  show ?case
  proof (cases "f x = k")
    case True
    have "\<forall>y\<in>set xs. f y \<noteq> k"
    proof
      fix y assume "y \<in> set xs"
      then have "f y \<in> f ` set xs" by (rule imageI)
      moreover from Cons.prems have "f x \<notin> f ` set xs" by simp
      ultimately show "f y \<noteq> k" using True by metis
    qed
    then have "filter (\<lambda>x. f x = k) xs = []" by (simp add: filter_empty_conv)
    with True show ?thesis by simp
  next
    case False
    with Cons show ?thesis by simp
  qed
qed

text \<open>After deduplication the left merge keeps one row per subject.\<close>

lemma merge_left_distinct:
  assumes "distinct (map m_SEQN mort)"
  shows "merge_left df mort = map (\<lambda>r. (r, find (\<lambda>m. m_SEQN m = SEQN r) mort)) df"
proof -
  have eq: "(case filter (\<lambda>m. m_SEQN m = SEQN r) mort of
           [] \<Rightarrow> [(r, None)] | ms \<Rightarrow> map (\<lambda>m. (r, Some m)) ms)
        = [(r, find (\<lambda>m. m_SEQN m = SEQN r) mort)]" for r :: subject
    by (simp add: filter_distinct_key [OF assms] split: option.splits)
  have "merge_left df mort =
      concat (map (\<lambda>r. [(r, find (\<lambda>m. m_SEQN m = SEQN r) mort)]) df)"
    unfolding merge_left_def eq ..
  also have "\<dots> = map (\<lambda>r. (r, find (\<lambda>m. m_SEQN m = SEQN r) mort)) df"
    by (induction df) simp_all
  finally show ?thesis .
qed

lemma link_mortality_nth:
  assumes "all_mort \<noteq> []" and "i < length df"
  shows "length (link_mortality df all_mort) = length df"
    and "link_mortality df all_mort ! i =
           link_row (df ! i, find (\<lambda>m. m_SEQN m = SEQN (df ! i))
                               (drop_duplicates (concat all_mort) []))"
  using assms
  by (simp_all add: link_mortality_def Let_def merge_left_distinct [OF drop_duplicates_distinct])

lemma find_none_iff_key: "find (\<lambda>m. f m = k) xs = None \<longleftrightarrow> (\<forall>m\<in>set xs. f m \<noteq> k)"
  by (auto simp: find_None_iff)

lemma find_distinct_key:
  "distinct (map f xs) \<Longrightarrow> m \<in> set xs \<Longrightarrow> f m = k \<Longrightarrow> find (\<lambda>x. f x = k) xs = Some m"
proof (induction xs)
  case Nil
  then show ?case by simp
next
  case (Cons x xs)
  show ?case
  proof (cases "f x = k")
    case True
    have "m = x"
    proof (rule ccontr)
      assume "m \<noteq> x"
      with Cons.prems(2) have "m \<in> set xs" by simp
      then have "f m \<in> f ` set xs" by (rule imageI)
      moreover from Cons.prems(1) have "f x \<notin> f ` set xs" by simp
      ultimately show False using True Cons.prems(3) by metis
    qed
    with True show ?thesis by simp
  next
    case False
    with Cons.prems(3) have "m \<noteq> x" by auto
    with Cons.prems(2) have "m \<in> set xs" by simp
    with Cons.IH Cons.prems False show ?thesis by simp
  qed
qed

lemma isna_fdiv_12: "isna (fdiv x (Fin 12)) = isna x"
  by (cases x) simp_all

lemma followup_years_spec:
  "followup_years cyc months =
     (if isna months then default_followup cyc else fdiv months (Fin 12))"
  by (cases months) (simp_all add: followup_years_def default_followup_def Let_def)

text \<open>
  C8.  After the linkage an unlinked subject should have death indicator 0 and the
  follow-up constant of its cycle, and a matched subject should keep follow-up months
  over 12.  The script fills the duration wherever it is NaN after the merge, although
  its comment reserves the constant for "those not in mortality file": the subject
  \<open>subj1\<close> is matched by the record \<open>mort1\<close>, whose follow-up months are missing, and
  gets the constant 3.5 of the cycle instead of the missing duration that months over 12
  gives.
\<close>

theorem matched_subject_imputed:
  "link_mortality [subj1] [[mort1]] =
     [\<lparr> l_SEQN = Fin 83732, l_cycle = ''2015-2016'', l_mortstat = Some 0, l_mort_all = Some 0,
        l_mort_cv = Some 0, l_mort_heart = Some 0, l_mort_cancer = Some 0,
        l_followup_years = Fin 3.5 \<rparr>]
   \<and> m_SEQN mort1 = SEQN subj1
   \<and> fdiv (m_permth_exm mort1) (Fin 12) = NaN"
  by (simp add: link_mortality_def merge_left_def link_row_def subj1_def mort1_def
      followup_years_def define_cause_specific_mortality_def fillna0_def b2i_def Let_def)

text \<open>
  What the linkage does when at least one mortality file is loaded: every cohort subject
  has one row; a subject with no record in the deduplicated mortality table has death
  indicator 0 and the follow-up constant of its cycle (3.5 years for 2015-2016, 2.0 years
  for 2017-2020); a matched subject keeps follow-up months over 12 when the months are
  present, and gets the constant of its cycle when they are missing.  Without any
  mortality file the outcome columns are NaN placeholders.
\<close>

theorem mortality_linkage:
  assumes "all_mort \<noteq> []" and "i < length df"
  shows "length (link_mortality df all_mort) = length df
     \<and> l_SEQN (link_mortality df all_mort ! i) = SEQN (df ! i)
     \<and> ((\<forall>m\<in>set (drop_duplicates (concat all_mort) []). m_SEQN m \<noteq> SEQN (df ! i)) \<longrightarrow>
          l_mortstat (link_mortality df all_mort ! i) = Some 0
        \<and> l_mort_all (link_mortality df all_mort ! i) = Some 0
        \<and> l_followup_years (link_mortality df all_mort ! i) = default_followup (cycle (df ! i)))
     \<and> (\<forall>m\<in>set (drop_duplicates (concat all_mort) []). m_SEQN m = SEQN (df ! i) \<longrightarrow>
          l_followup_years (link_mortality df all_mort ! i) =
            (if isna (m_permth_exm m) then default_followup (cycle (df ! i))
             else fdiv (m_permth_exm m) (Fin 12)))"
proof -
  let ?mort = "drop_duplicates (concat all_mort) []"
  let ?l = "link_mortality df all_mort ! i"
  note n = link_mortality_nth [OF assms]
  have a: "l_SEQN ?l = SEQN (df ! i)"
    by (simp add: n(2) link_row_def Let_def)
  have b: "l_mortstat ?l = Some 0 \<and> l_mort_all ?l = Some 0
      \<and> l_followup_years ?l = default_followup (cycle (df ! i))"
    if "\<forall>m\<in>set ?mort. m_SEQN m \<noteq> SEQN (df ! i)"
  proof -
    from that have "find (\<lambda>m. m_SEQN m = SEQN (df ! i)) ?mort = None"
      by (simp add: find_none_iff_key)
    then show ?thesis
      by (simp add: n(2) link_row_def Let_def fillna0_def followup_years_spec)
  qed
  have c: "l_followup_years ?l =
      (if isna (m_permth_exm m) then default_followup (cycle (df ! i))
       else fdiv (m_permth_exm m) (Fin 12))"
    if "m \<in> set ?mort" and "m_SEQN m = SEQN (df ! i)" for m
  proof -
    from that have "find (\<lambda>m. m_SEQN m = SEQN (df ! i)) ?mort = Some m"
      by (rule find_distinct_key [OF drop_duplicates_distinct])
    then show ?thesis
      by (simp add: n(2) link_row_def Let_def followup_years_spec)
  qed
  from n(1) a b c show ?thesis by blast
qed

theorem mortality_linkage_witness:
  "[[mort2]] \<noteq> [] \<and> (0::nat) < length [subj1]
   \<and> drop_duplicates (concat [[mort2]]) [] = [mort2] \<and> m_SEQN mort2 \<noteq> SEQN subj1
   \<and> l_mortstat (link_mortality [subj1] [[mort2]] ! 0) = Some 0
   \<and> l_mort_all (link_mortality [subj1] [[mort2]] ! 0) = Some 0
   \<and> l_followup_years (link_mortality [subj1] [[mort2]] ! 0) = Fin 3.5
   \<and> m_SEQN mort2 = SEQN subj2 \<and> \<not> isna (m_permth_exm mort2)
   \<and> l_followup_years (link_mortality [subj2] [[mort2]] ! 0) = Fin 2.5
   \<and> drop_duplicates (concat [[mort1]]) [] = [mort1]
   \<and> m_SEQN mort1 = SEQN subj1 \<and> isna (m_permth_exm mort1)
   \<and> l_followup_years (link_mortality [subj1] [[mort1]] ! 0) = Fin 3.5"
  using mortality_linkage [of "[[mort2]]" 0 "[subj1]"] mortality_linkage [of "[[mort2]]" 0 "[subj2]"]
    mortality_linkage [of "[[mort1]]" 0 "[subj1]"]
  by (simp add: subj1_def subj2_def mort1_def mort2_def default_followup_def)

section \<open>Sex-specific standardisation with a degenerate subgroup\<close>

text \<open>
  Whenever the cohort script divides, the divisor has passed the guard \<open>std_almi > 0\<close>.
\<close>

lemma almi_division_divisor:
  "almi_division n sex xs v = Some (m, s) \<Longrightarrow> fgt s (Fin 0) \<and> s \<noteq> Fin 0 \<and> \<not> isna s"
  by (cases s) (auto simp: almi_division_def Let_def fgt_def split: if_splits)





section \<open>Quartile buckets\<close>

lemma qcut_nth:
  assumes "qcut xs = Inr q" and "i < length xs"
  shows "q ! i = (case xs ! i of None \<Rightarrow> None
                 | Some a \<Rightarrow> bin_label (qcut_bins (some_vals xs)) a)"
  using assms by (auto simp: qcut_def Let_def split: if_splits)

lemma set_some_vals: "set (some_vals xs) = {a. Some a \<in> set xs}"
  by (induction xs) (auto simp: some_vals_def split: option.splits)

lemma length_some_vals: "length (some_vals xs) = length (filter (\<lambda>x. x \<noteq> None) xs)"
  by (induction xs) (auto simp: some_vals_def split: option.splits)

lemma finite_part_Some_iff: "finite_part x = Some a \<longleftrightarrow> x = Fin a"
  by (cases x) auto

lemma finite_part_None_iff: "fin_or_nan x \<Longrightarrow> finite_part x = None \<longleftrightarrow> isna x"
  by (cases x) (auto simp: fin_or_nan_def)

lemma index_population:
  assumes "length xs = n"
  shows "set (some_vals (map finite_part xs)) = {a. \<exists>j<n. xs ! j = Fin a}"
proof -
  have "Some a \<in> set (map finite_part xs) \<longleftrightarrow> (\<exists>j<n. xs ! j = Fin a)" for a
  proof
    assume "Some a \<in> set (map finite_part xs)"
    then obtain x where x: "x \<in> set xs" and "finite_part x = Some a" by auto
    then have "x = Fin a" by (simp add: finite_part_Some_iff)
    with x assms show "\<exists>j<n. xs ! j = Fin a" by (auto simp: in_set_conv_nth)
  next
    assume "\<exists>j<n. xs ! j = Fin a"
    then obtain j where jn: "j < n" and j: "xs ! j = Fin a" by blast
    from jn assms have "j < length xs" by simp
    then have "xs ! j \<in> set xs" by (rule nth_mem)
    then have "finite_part (xs ! j) \<in> set (map finite_part xs)" by simp
    with j show "Some a \<in> set (map finite_part xs)" by simp
  qed
  then show ?thesis by (simp add: set_some_vals)
qed

lemma index_population_size:
  assumes "\<forall>x\<in>set xs. fin_or_nan x"
  shows "length (some_vals (map finite_part xs)) = length (filter (\<lambda>x. \<not> isna x) xs)"
proof -
  have "filter (\<lambda>x. x \<noteq> None) (map finite_part xs) = map finite_part (filter (\<lambda>x. \<not> isna x) xs)"
    using assms by (induction xs) (auto simp: finite_part_None_iff)
  then show ?thesis by (simp add: length_some_vals)
qed

lemma quartile_of_index:
  assumes "qcut (map finite_part xs) = Inr q" and "i < length xs" and "fin_or_nan (xs ! i)"
  shows "(isna (xs ! i) \<longrightarrow> q ! i = None)
       \<and> (\<not> isna (xs ! i) \<longrightarrow>
            (\<exists>a. xs ! i = Fin a \<and> q ! i = bin_label (qcut_bins (some_vals (map finite_part xs))) a))"
  using assms(2,3) qcut_nth [OF assms(1), of i]
  by (cases "xs ! i") (auto simp: fin_or_nan_def)

lemma length_cohort_iri: "build_iri_cohort df = Inr out \<Longrightarrow> length (c_iri out) = nrows df"
  by (simp add: build_iri_cohort_fields(8) length_rowwise)

lemma length_construct_iri: "construct_iri df = Inr h \<Longrightarrow> length (h_iri h) = nrows df"
  by (simp add: construct_iri_fields(7) length_rowwise)

lemma sort2: "sort [- 1, 0 :: real] = [- 1, 0]"
  by simp

lemma qcut_bins2: "qcut_bins [- 1, 0] = [- 1, - (3 / 4), - (1 / 2), - (1 / 4), 0]"
  by (simp add: qcut_bins_def quantile_linear_def Let_def)

text \<open>
  C2.  As stated the claim fails: the cut points are not those of the eligible subjects.
  On the table \<open>df3\<close> the third subject is ten years old and not eligible, yet the index
  of that subject enters the quantiles: the script bins with the cut points -1, -1/2, 0,
  1/2, 1 and puts the second subject into the second quartile, where the cut points of
  the two eligible subjects are -1, -3/4, -1/2, -1/4, 0 and put that subject into the
  fourth.
\<close>

theorem quartiles_not_eligible_only:
  "build_iri_cohort df3 = Inr out3
   \<and> c_eligible out3 = [1, 1, 0]
   \<and> qcut_bins (some_vals (map finite_part (c_iri out3))) = [- 1, - (1 / 2), 0, 1 / 2, 1]
   \<and> eligible_cut_points (c_eligible out3) (c_iri out3) = [- 1, - (3 / 4), - (1 / 2), - (1 / 4), 0]
   \<and> c_iri out3 ! 1 = Fin 0
   \<and> c_iri_quartile out3 ! 1 = Some Q2
   \<and> bin_label (eligible_cut_points (c_eligible out3) (c_iri out3)) 0 = Some Q4"
  by (simp add: build_df3)
    (simp add: out3_def eligible_cut_points_def some_vals_def qcut_bins3 qcut_bins2 bin_label_def)

text \<open>
  C2, amended.  In both scripts the quartile bucket of a subject is computed by
  equal-frequency binning of the composite index over all subjects whose index is not
  missing, whether eligible or not: the cut points are the quantiles of the index values
  of exactly those subjects, a subject with a missing index contributes nothing and gets
  no bucket, and the eligibility flag plays no part.
\<close>

theorem quartiles_over_available_index:
  assumes "wf_frame df" and "i < nrows df"
  shows "(build_iri_cohort df = Inr out \<longrightarrow>
            (isna (c_iri out ! i) \<longrightarrow> c_iri_quartile out ! i = None)
          \<and> (\<not> isna (c_iri out ! i) \<longrightarrow>
               (\<exists>a. c_iri out ! i = Fin a
                  \<and> c_iri_quartile out ! i =
                      bin_label (qcut_bins (some_vals (map finite_part (c_iri out)))) a))
          \<and> set (some_vals (map finite_part (c_iri out))) = {a. \<exists>j<nrows df. c_iri out ! j = Fin a}
          \<and> length (some_vals (map finite_part (c_iri out)))
              = length (filter (\<lambda>x. \<not> isna x) (c_iri out)))
       \<and> (construct_iri df = Inr h \<longrightarrow>
            (isna (h_iri h ! i) \<longrightarrow> h_iri_quartile h ! i = None)
          \<and> (\<not> isna (h_iri h ! i) \<longrightarrow>
               (\<exists>a. h_iri h ! i = Fin a
                  \<and> h_iri_quartile h ! i =
                      bin_label (qcut_bins (some_vals (map finite_part (h_iri h)))) a))
          \<and> set (some_vals (map finite_part (h_iri h))) = {a. \<exists>j<nrows df. h_iri h ! j = Fin a}
          \<and> length (some_vals (map finite_part (h_iri h)))
              = length (filter (\<lambda>x. \<not> isna x) (h_iri h)))"
proof (intro conjI impI)
  assume ok: "build_iri_cohort df = Inr out"
  note len = length_cohort_iri [OF ok]
  note q = build_iri_cohort_fields(9) [OF ok]
  have fin: "fin_or_nan (c_iri out ! j)" if "j < nrows df" for j
    using cohort_iri_no_inf [OF assms(1) that ok] .
  from quartile_of_index [OF q, of i] len assms(2) fin [OF assms(2)]
  have qi: "(isna (c_iri out ! i) \<longrightarrow> c_iri_quartile out ! i = None)
      \<and> (\<not> isna (c_iri out ! i) \<longrightarrow>
           (\<exists>a. c_iri out ! i = Fin a
              \<and> c_iri_quartile out ! i =
                  bin_label (qcut_bins (some_vals (map finite_part (c_iri out)))) a))"
    by simp
  { assume "isna (c_iri out ! i)"
    with qi show "c_iri_quartile out ! i = None" by blast }
  { assume "\<not> isna (c_iri out ! i)"
    with qi show "\<exists>a. c_iri out ! i = Fin a
        \<and> c_iri_quartile out ! i =
            bin_label (qcut_bins (some_vals (map finite_part (c_iri out)))) a" by blast }
  show "set (some_vals (map finite_part (c_iri out))) = {a. \<exists>j<nrows df. c_iri out ! j = Fin a}"
    by (rule index_population [OF len])
  have "\<forall>x\<in>set (c_iri out). fin_or_nan x"
    using fin len by (auto simp: in_set_conv_nth)
  then show "length (some_vals (map finite_part (c_iri out)))
      = length (filter (\<lambda>x. \<not> isna x) (c_iri out))"
    by (rule index_population_size)
next
  assume ok: "construct_iri df = Inr h"
  note len = length_construct_iri [OF ok]
  note q = construct_iri_fields(8) [OF ok]
  have fin: "fin_or_nan (h_iri h ! j)" if "j < nrows df" for j
    using construct_iri_no_inf [OF assms(1) that ok] .
  from quartile_of_index [OF q, of i] len assms(2) fin [OF assms(2)]
  have qi: "(isna (h_iri h ! i) \<longrightarrow> h_iri_quartile h ! i = None)
      \<and> (\<not> isna (h_iri h ! i) \<longrightarrow>
           (\<exists>a. h_iri h ! i = Fin a
              \<and> h_iri_quartile h ! i =
                  bin_label (qcut_bins (some_vals (map finite_part (h_iri h)))) a))"
    by simp
  { assume "isna (h_iri h ! i)"
    with qi show "h_iri_quartile h ! i = None" by blast }
  { assume "\<not> isna (h_iri h ! i)"
    with qi show "\<exists>a. h_iri h ! i = Fin a
        \<and> h_iri_quartile h ! i =
            bin_label (qcut_bins (some_vals (map finite_part (h_iri h)))) a" by blast }
  show "set (some_vals (map finite_part (h_iri h))) = {a. \<exists>j<nrows df. h_iri h ! j = Fin a}"
    by (rule index_population [OF len])
  have "\<forall>x\<in>set (h_iri h). fin_or_nan x"
    using fin len by (auto simp: in_set_conv_nth)
  then show "length (some_vals (map finite_part (h_iri h)))
      = length (filter (\<lambda>x. \<not> isna x) (h_iri h))"
    by (rule index_population_size)
qed

theorem quartiles_over_available_index_witness:
  "wf_frame df3 \<and> (2::nat) < nrows df3 \<and> build_iri_cohort df3 = Inr out3
   \<and> construct_iri df3 = Inr h3
   \<and> c_eligible out3 ! 2 = 0 \<and> \<not> isna (c_iri out3 ! 2)
   \<and> (\<exists>a. c_iri out3 ! 2 = Fin a
         \<and> c_iri_quartile out3 ! 2 =
             bin_label (qcut_bins (some_vals (map finite_part (c_iri out3)))) a)
   \<and> 1 \<in> set (some_vals (map finite_part (c_iri out3)))
   \<and> \<not> isna (h_iri h3 ! 2)
   \<and> (\<exists>a. h_iri h3 ! 2 = Fin a
         \<and> h_iri_quartile h3 ! 2 =
             bin_label (qcut_bins (some_vals (map finite_part (h_iri h3)))) a)"
proof -
  have i: "(2::nat) < nrows df3" by (simp add: df3_def)
  note t = quartiles_over_available_index [OF wf_df3 i, of out3 h3]
  have v: "c_eligible out3 ! 2 = 0" "\<not> isna (c_iri out3 ! 2)" "\<not> isna (h_iri h3 ! 2)"
    "1 \<in> set (some_vals (map finite_part (c_iri out3)))"
    by (simp_all add: out3_def h3_def some_vals_def)
  from t build_df3 construct_df3 v wf_df3 i show ?thesis by blast
qed

end
